theory Spec2Isabelle
  imports Complex_Main
begin

text \<open>
  A model of \<^verbatim>\<open>ddtpy/main.py\<close>, the driver of the galaxy-subtraction fit: the reading of
  the configuration, the loading and preparation of the datacubes, the set-up of the
  model, and the registration of the final-reference epochs. Line numbers are those of
  \<^verbatim>\<open>main.py\<close>.
\<close>

section \<open>Values\<close>

text \<open>
  The arrays of \<^verbatim>\<open>ddtpy/main.py\<close> hold IEEE doubles. A value is modelled as a real number
  or NaN: arithmetic on finite values is exact (no rounding, no infinities), NaN is
  absorbing, and every comparison with NaN is false, as in numpy.
\<close>

datatype pyfloat = NaN | Fin real

fun isnan :: "pyfloat \<Rightarrow> bool" where
  "isnan NaN = True"
| "isnan (Fin r) = False"

fun fin_val :: "pyfloat \<Rightarrow> real" where
  "fin_val (Fin r) = r"
| "fin_val NaN = 0"

fun fadd :: "pyfloat \<Rightarrow> pyfloat \<Rightarrow> pyfloat" where
  "fadd (Fin a) (Fin b) = Fin (a + b)"
| "fadd a b = NaN"

fun fsub :: "pyfloat \<Rightarrow> pyfloat \<Rightarrow> pyfloat" where
  "fsub (Fin a) (Fin b) = Fin (a - b)"
| "fsub a b = NaN"

fun fmul :: "pyfloat \<Rightarrow> pyfloat \<Rightarrow> pyfloat" where
  "fmul (Fin a) (Fin b) = Fin (a * b)"
| "fmul a b = NaN"

fun fabs :: "pyfloat \<Rightarrow> pyfloat" where
  "fabs (Fin a) = Fin \<bar>a\<bar>"
| "fabs NaN = NaN"

fun fgt :: "pyfloat \<Rightarrow> pyfloat \<Rightarrow> bool" where
  "fgt (Fin a) (Fin b) = (a > b)"
| "fgt a b = False"

fun flt :: "pyfloat \<Rightarrow> pyfloat \<Rightarrow> bool" where
  "flt (Fin a) (Fin b) = (a < b)"
| "flt a b = False"


type_synonym arr1 = "pyfloat list"
type_synonym arr2 = "pyfloat list list"
type_synonym arr3 = "pyfloat list list list"
type_synonym arr4 = "pyfloat list list list list"

section \<open>Errors and calls\<close>

datatype error =
    RuntimeError string
  | KeyError string
  | IndexError
  | ValueError
  | OtherError string

text \<open>
  A computation threads the log of the calls it makes to code outside \<^verbatim>\<open>main.py\<close> and
  either raises or returns. The log is ghost state: it records which collaborator was
  called, in which order and with which arguments.
\<close>

type_synonym ('e, 'x) exec = "'e list \<Rightarrow> (error + 'x) \<times> 'e list"

definition ret :: "'x \<Rightarrow> ('e, 'x) exec" where
  "ret x = (\<lambda>tr. (Inr x, tr))"

definition raise :: "error \<Rightarrow> ('e, 'x) exec" where
  "raise e = (\<lambda>tr. (Inl e, tr))"

definition bnd :: "('e, 'x) exec \<Rightarrow> ('x \<Rightarrow> ('e, 'y) exec) \<Rightarrow> ('e, 'y) exec" where
  "bnd m f = (\<lambda>tr. case m tr of (Inl e, tr') \<Rightarrow> (Inl e, tr') | (Inr x, tr') \<Rightarrow> f x tr')"

definition call :: "'e \<Rightarrow> error + 'x \<Rightarrow> ('e, 'x) exec" where
  "call ev r = (\<lambda>tr. (r, tr @ [ev]))"

text \<open>Sequencing of steps that make no call: the first exception ends the sequence.\<close>

definition and_then :: "error + 'x \<Rightarrow> ('x \<Rightarrow> error + 'y) \<Rightarrow> error + 'y" where
  "and_then r f = (case r of Inl e \<Rightarrow> Inl e | Inr x \<Rightarrow> f x)"

text \<open>A step that makes no call: it raises or returns and leaves the log as it is.\<close>

definition lift :: "error + 'x \<Rightarrow> ('e, 'x) exec" where
  "lift r = (\<lambda>tr. (r, tr))"

text \<open>\<^verbatim>\<open>xs[i]\<close> for \<open>i \<ge> 0\<close>: IndexError out of range.\<close>

definition index :: "'x list \<Rightarrow> nat \<Rightarrow> error + 'x" where
  "index xs i = (if i < length xs then Inr (xs ! i) else Inl IndexError)"

text \<open>\<^verbatim>\<open>xs[i] = v\<close> for \<open>i \<ge> 0\<close>.\<close>

definition store :: "'x list \<Rightarrow> nat \<Rightarrow> 'x \<Rightarrow> error + 'x list" where
  "store xs i v = (if i < length xs then Inr (xs[i := v]) else Inl IndexError)"

section \<open>Configuration\<close>

text \<open>
  \<^verbatim>\<open>conf = json.load(f)\<close> is a dictionary. Each key that \<^verbatim>\<open>main\<close> reads is a field that is
  \<open>None\<close> when the key is absent; a present key holds a value of the JSON type at which
  the code uses it.
\<close>

record conf =
  FLAG_APODIZER :: "int option"
  PARAM_SPAXEL_SIZE :: "real option"
  PARAM_LAMBDA_REF :: "real option"
  PARAM_FINAL_REF :: "int option"
  PARAM_IS_FINAL_REF :: "bool list option"
  N_ITER_GALAXY_PRIOR :: "int option"
  IN_CUBE :: "string list option"
  PARAM_PSF_TYPE :: "string option"
  PARAM_PSF_ES :: "real list list option"
  PARAM_AIRMASS :: "real list option"
  PARAM_P :: "real list option"
  PARAM_T :: "real list option"
  PARAM_H :: "real list option"
  PARAM_HA :: "real list option"
  PARAM_DEC :: "real list option"
  PARAM_MLA_TILT :: "real option"
  PARAM_TARGET_XP :: "real list option"
  PARAM_TARGET_YP :: "real list option"
  MU_GALAXY_XY_PRIOR :: "real option"
  MU_GALAXY_LAMBDA_PRIOR :: "real option"

text \<open>\<^verbatim>\<open>conf.get(key, default)\<close> and \<^verbatim>\<open>conf[key]\<close>.\<close>

definition conf_get :: "'v option \<Rightarrow> 'v \<Rightarrow> 'v" where
  "conf_get v dflt = (case v of None \<Rightarrow> dflt | Some x \<Rightarrow> x)"

definition conf_item :: "string \<Rightarrow> 'v option \<Rightarrow> error + 'v" where
  "conf_item k v = (case v of None \<Rightarrow> Inl (KeyError k) | Some x \<Rightarrow> Inr x)"

section \<open>Datacube store and forward model\<close>

text \<open>
  Modelled from the spec: the class \<^verbatim>\<open>DDTData\<close> of \<^verbatim>\<open>ddtpy/data.py\<close>, which is not among
  the sources. It holds the arrays it is given, \<open>data\<close> and \<open>weight\<close> indexed
  \<open>[epoch][wavelength][y][x]\<close>, and the extents \<open>nt\<close>, \<open>nw\<close>, \<open>ny\<close>, \<open>nx\<close> of \<open>data\<close>,
  the attributes that \<^verbatim>\<open>main\<close> reads. \<open>is_final_ref\<close> is \<open>None\<close> for
  \<^verbatim>\<open>np.array(None)\<close>, which cannot be indexed.
\<close>

record 'h ddtdata =
  data :: arr4
  weight :: arr4
  wave :: arr1
  is_final_ref :: "bool list option"
  master_final_ref :: int
  header :: 'h
  spaxel_size :: real
  nt :: nat
  nw :: nat
  ny :: nat
  nx :: nat

definition DDTData ::
  "nat \<times> nat \<times> nat \<times> nat \<Rightarrow> arr4 \<Rightarrow> arr4 \<Rightarrow> arr1 \<Rightarrow> bool list option \<Rightarrow> int \<Rightarrow> 'h \<Rightarrow> real
     \<Rightarrow> 'h ddtdata" where
  "DDTData shp dat wgt wav fr mfr hdr sps =
     (case shp of (t, w, y, x) \<Rightarrow>
        \<lparr>data = dat, weight = wgt, wave = wav, is_final_ref = fr, master_final_ref = mfr,
         header = hdr, spaxel_size = sps, nt = t, nw = w, ny = y, nx = x\<rparr>)"

text \<open>
  Modelled from the spec: the class \<^verbatim>\<open>DDTModel\<close> of \<^verbatim>\<open>ddtpy/model.py\<close>, which is not among
  the sources. \<^verbatim>\<open>main\<close> reads and writes the registration offsets \<open>data_xctr\<close> and
  \<open>data_yctr\<close>; galaxy, supernova, sky, PSF and ADR arrays are the opaque \<open>internals\<close>.
\<close>

record 'm ddtmodel =
  data_xctr :: arr1
  data_yctr :: arr1
  internals :: 'm

text \<open>The calls that \<^verbatim>\<open>main\<close> makes to the other modules, with the arguments of interest.\<close>

datatype ('h, 'm) event =
    Ev_read_select_header_keys string
  | Ev_read_dataset "string list"
  | Ev_DDTData "'h ddtdata"
  | Ev_params_from_gs "real list list" arr1 real
  | Ev_differential_refraction "real list" "real list" "real list" "real list" arr1 real
  | Ev_calc_paralactic_angle
  | Ev_guess_sky
  | Ev_DDTModel "nat \<times> nat" arr1 arr1
  | Ev_fit_model_all_epoch "'m ddtmodel" "'h ddtdata"
  | Ev_evaluate "'m ddtmodel" nat arr1 arr1
  | Ev_fit_position "'h ddtdata" "'m ddtmodel" nat nat

text \<open>
  The functions of the other modules are parameters of the model: each returns a result
  or raises, and none of them changes its arguments, except \<open>fit_model_all_epoch\<close>, which
  updates the model it is given. \<open>adr_dx_of\<close> and \<open>adr_dy_of\<close> stand for the numpy
  arithmetic of lines 110 to 113 on arrays (of the opaque type \<open>'a\<close>) that \<^verbatim>\<open>main\<close> only
  hands on to the model.
\<close>

record ('h, 'a, 'm) ext =
  read_select_header_keys :: "string \<Rightarrow> error + 'h"
  read_dataset :: "string list \<Rightarrow> error + (arr4 \<times> arr4 \<times> arr1)"
  params_from_gs :: "real list list \<Rightarrow> arr1 \<Rightarrow> real \<Rightarrow> error + ('a \<times> 'a)"
  differential_refraction ::
    "real list \<Rightarrow> real list \<Rightarrow> real list \<Rightarrow> real list \<Rightarrow> arr1 \<Rightarrow> real \<Rightarrow> error + 'a"
  calc_paralactic_angle :: "real list \<Rightarrow> real list \<Rightarrow> real list \<Rightarrow> real \<Rightarrow> error + 'a"
  adr_dx_of :: "'a \<Rightarrow> real \<Rightarrow> 'a \<Rightarrow> 'a"
  adr_dy_of :: "'a \<Rightarrow> real \<Rightarrow> 'a \<Rightarrow> 'a"
  guess_sky :: "'h ddtdata \<Rightarrow> real \<Rightarrow> error + 'a"
  DDTModel ::
    "nat \<times> nat \<Rightarrow> 'a \<Rightarrow> 'a \<Rightarrow> 'a \<Rightarrow> 'a \<Rightarrow> real \<Rightarrow> real \<Rightarrow> real \<Rightarrow> arr1 \<Rightarrow> arr1 \<Rightarrow> 'a
       \<Rightarrow> error + 'm ddtmodel"
  fit_model_all_epoch :: "'m ddtmodel \<Rightarrow> 'h ddtdata \<Rightarrow> error + 'm ddtmodel"
  evaluate :: "'m ddtmodel \<Rightarrow> nat \<Rightarrow> arr1 \<Rightarrow> arr1 \<Rightarrow> string \<Rightarrow> error + arr3"
  fit_position :: "'h ddtdata \<Rightarrow> 'm ddtmodel \<Rightarrow> nat \<Rightarrow> nat \<Rightarrow> error + ((pyfloat \<times> pyfloat) \<times> bool)"

section \<open>Loading the data (lines 29 to 69)\<close>

text \<open>\<^verbatim>\<open>data[0,0,0]\<close> on a four-dimensional array: IndexError when one of the first three
  axes is empty.\<close>

definition first_row :: "arr4 \<Rightarrow> error + arr1" where
  "first_row a = and_then (index a 0) (\<lambda>e. and_then (index e 0) (\<lambda>p. index p 0))"

text \<open>\<^verbatim>\<open>a[:, 200:201, :, :] * c\<close>: a slice never raises; it is empty when the axis is short.\<close>

definition slice_scale :: "real \<Rightarrow> arr4 \<Rightarrow> arr4" where
  "slice_scale c a = map (\<lambda>e. map (map (map (\<lambda>v. fmul v (Fin c)))) (take 1 (drop 200 e))) a"

definition shape_of :: "arr4 \<Rightarrow> nat list list list" where
  "shape_of a = map (map (map length)) a"

text \<open>
  Lines 64 to 66: \<^verbatim>\<open>mask = np.isnan(data); data[mask] = 0.0; weight[mask] = 0.0\<close>.
  Indexing \<open>weight\<close> with a boolean array of another shape raises IndexError.
\<close>

definition zero_nan_data :: "arr4 \<Rightarrow> arr4" where
  "zero_nan_data d = map (map (map (map (\<lambda>v. if isnan v then Fin 0 else v)))) d"

definition zero_nan_weight :: "arr4 \<Rightarrow> arr4 \<Rightarrow> arr4" where
  "zero_nan_weight d w =
     map2 (map2 (map2 (map2 (\<lambda>v u. if isnan v then Fin 0 else u)))) d w"

definition zero_weight_nan :: "arr4 \<Rightarrow> arr4 \<Rightarrow> error + (arr4 \<times> arr4)" where
  "zero_weight_nan d w =
     (if shape_of d = shape_of w then Inr (zero_nan_data d, zero_nan_weight d w)
      else Inl IndexError)"

definition wave_ref_of :: "conf \<Rightarrow> real" where
  "wave_ref_of c = conf_get (PARAM_LAMBDA_REF c) 5000"

definition main_load ::
  "('h, 'a, 'm) ext \<Rightarrow> conf \<Rightarrow> (('h, 'm) event, 'h ddtdata \<times> real \<times> real) exec" where
  "main_load ex c =
     (if conf_get (FLAG_APODIZER c) 0 \<ge> 2
      then raise (RuntimeError ''FLAG_APODIZER >= 2 not implemented'')
      else
      bnd (lift (conf_item ''PARAM_SPAXEL_SIZE'' (PARAM_SPAXEL_SIZE c))) (\<lambda>spaxel_sz.
      bnd (lift (conf_item ''PARAM_FINAL_REF'' (PARAM_FINAL_REF c))) (\<lambda>final_ref.
      bnd (lift (conf_item ''IN_CUBE'' (IN_CUBE c))) (\<lambda>in_cube.
      bnd (lift (index in_cube (nat (if final_ref - 1 \<ge> 0 then final_ref - 1 else 0)))) (\<lambda>cube.
      bnd (call (Ev_read_select_header_keys cube) (read_select_header_keys ex cube)) (\<lambda>hdr.
      bnd (call (Ev_read_dataset in_cube) (read_dataset ex in_cube)) (\<lambda>(data0, weight0, wave0).
      bnd (lift (first_row data0)) (\<lambda>row0.
      bnd (lift (zero_weight_nan (slice_scale (10 ^ 15) data0)
                                (slice_scale (1 / 10 ^ 30) weight0)))
        (\<lambda>(data1, weight1).
      let d = DDTData (length data0, length (take 1 (drop 200 (data0 ! 0))),
                       length (data0 ! 0 ! 0), length row0)
                data1 weight1 (take 1 (drop 200 wave0)) (PARAM_IS_FINAL_REF c) (final_ref - 1)
                hdr spaxel_sz
      in call (Ev_DDTData d) (Inr (d, wave_ref_of c, spaxel_sz)))))))))))"

section \<open>PSF parameters (lines 80 to 87)\<close>

definition main_psf ::
  "('h, 'a, 'm) ext \<Rightarrow> conf \<Rightarrow> 'h ddtdata \<Rightarrow> real \<Rightarrow> (('h, 'm) event, 'a \<times> 'a) exec" where
  "main_psf ex c d wave_rf =
     bnd (lift (conf_item ''PARAM_PSF_TYPE'' (PARAM_PSF_TYPE c))) (\<lambda>psf_type.
       if psf_type = ''GS-PSF'' then
         bnd (lift (conf_item ''PARAM_PSF_ES'' (PARAM_PSF_ES c))) (\<lambda>es_psf_params.
         call (Ev_params_from_gs es_psf_params (wave d) wave_rf)
              (params_from_gs ex es_psf_params (wave d) wave_rf))
       else if psf_type = ''G-PSF'' then
         raise (RuntimeError ''G-PSF (from FITS files) not implemented'')
       else raise (RuntimeError ''unrecognized PARAM_PSF_TYPE''))"

section \<open>Atmospheric differential refraction (lines 97 to 113)\<close>

definition deg2rad :: "real \<Rightarrow> real" where
  "deg2rad x = x * pi / 180"

definition main_adr ::
  "('h, 'a, 'm) ext \<Rightarrow> conf \<Rightarrow> 'h ddtdata \<Rightarrow> real \<Rightarrow> real \<Rightarrow> (('h, 'm) event, 'a \<times> 'a) exec"
  where
  "main_adr ex c d wave_rf spaxel_sz =
     bnd (lift (conf_item ''PARAM_AIRMASS'' (PARAM_AIRMASS c))) (\<lambda>airmass.
     bnd (lift (conf_item ''PARAM_HA'' (PARAM_HA c))) (\<lambda>ha.
     bnd (lift (conf_item ''PARAM_DEC'' (PARAM_DEC c))) (\<lambda>dec.
     bnd (lift (conf_item ''PARAM_MLA_TILT'' (PARAM_MLA_TILT c))) (\<lambda>tilt.
     bnd (call (Ev_differential_refraction airmass
                  (conf_get (PARAM_P c) (replicate (length airmass) 615))
                  (conf_get (PARAM_T c) (replicate (length airmass) 2))
                  (conf_get (PARAM_H c) (replicate (length airmass) 0))
                  (wave d) wave_rf)
               (differential_refraction ex airmass
                  (conf_get (PARAM_P c) (replicate (length airmass) 615))
                  (conf_get (PARAM_T c) (replicate (length airmass) 2))
                  (conf_get (PARAM_H c) (replicate (length airmass) 0))
                  (wave d) wave_rf)) (\<lambda>delta_r.
     bnd (call Ev_calc_paralactic_angle
               (calc_paralactic_angle ex airmass (map deg2rad ha) (map deg2rad dec) tilt))
       (\<lambda>paralactic_angle.
     ret (adr_dx_of ex delta_r spaxel_sz paralactic_angle,
          adr_dy_of ex delta_r spaxel_sz paralactic_angle)))))))"

section \<open>Initial model (lines 115 to 136)\<close>

definition data_ctr_init :: "real list option \<Rightarrow> nat \<Rightarrow> arr1" where
  "data_ctr_init target n =
     (case target of Some v \<Rightarrow> map Fin v | None \<Rightarrow> replicate n (Fin 0))"

definition main_model ::
  "('h, 'a, 'm) ext \<Rightarrow> conf \<Rightarrow> 'h ddtdata \<Rightarrow> real \<Rightarrow> 'a \<times> 'a \<Rightarrow> 'a \<times> 'a
     \<Rightarrow> (('h, 'm) event, 'm ddtmodel \<times> arr1 \<times> arr1) exec" where
  "main_model ex c d spaxel_sz psf adr =
     bnd (call Ev_guess_sky (guess_sky ex d 2)) (\<lambda>skyguess.
     bnd (lift (conf_item ''MU_GALAXY_XY_PRIOR'' (MU_GALAXY_XY_PRIOR c))) (\<lambda>mu_xy.
     bnd (lift (conf_item ''MU_GALAXY_LAMBDA_PRIOR'' (MU_GALAXY_LAMBDA_PRIOR c))) (\<lambda>mu_wave.
     bnd (call (Ev_DDTModel (nt d, nw d)
                  (data_ctr_init (PARAM_TARGET_XP c) (nt d))
                  (data_ctr_init (PARAM_TARGET_YP c) (nt d)))
               (DDTModel ex (nt d, nw d) (fst psf) (snd psf) (fst adr) (snd adr) spaxel_sz
                  mu_xy mu_wave
                  (data_ctr_init (PARAM_TARGET_XP c) (nt d))
                  (data_ctr_init (PARAM_TARGET_YP c) (nt d)) skyguess)) (\<lambda>model.
     ret (model, data_ctr_init (PARAM_TARGET_XP c) (nt d),
          data_ctr_init (PARAM_TARGET_YP c) (nt d))))))"

section \<open>Registration of the final references (lines 144 to 208)\<close>

text \<open>The state of the loop: the datacube store, whose weights are modified in place, the
  model, and the flags \<open>include_in_fit\<close>.\<close>

record ('h, 'm) regstate =
  rs_data :: "'h ddtdata"
  rs_model :: "'m ddtmodel"
  include_in_fit :: "bool list"

text \<open>\<^verbatim>\<open>np.arange(n) - (n - 1) / 2. + ctr\<close>\<close>

definition coords :: "nat \<Rightarrow> pyfloat \<Rightarrow> arr1" where
  "coords n ctr = map (\<lambda>k. fadd (Fin (real k - (real n - 1) / 2)) ctr) [0..<n]"

text \<open>
  \<^verbatim>\<open>m.sum(axis=0)\<close> for the array \<open>m\<close> that \<^verbatim>\<open>model.evaluate\<close> returns for \<open>h\<close> y-coordinates
  and \<open>w\<close> x-coordinates, of shape (wavelengths, \<open>h\<close>, \<open>w\<close>).
\<close>

definition sum_axis0 :: "nat \<Rightarrow> nat \<Rightarrow> arr3 \<Rightarrow> arr2" where
  "sum_axis0 h w m =
     map (\<lambda>y. map (\<lambda>x. foldl fadd (Fin 0) (map (\<lambda>p. p ! y ! x) m)) [0..<w]) [0..<h]"

text \<open>
  \<^verbatim>\<open>np.median\<close> of the flattened array: the middle element of the sorted values, or the
  mean of the two middle ones; NaN for an empty array (with a warning) and when a value
  is NaN. \<^verbatim>\<open>np.min\<close> raises ValueError on an empty array and propagates NaN.
\<close>

definition median :: "real list \<Rightarrow> real" where
  "median xs =
     (let s = sort xs; n = length xs
      in if odd n then s ! (n div 2) else (s ! (n div 2 - 1) + s ! (n div 2)) / 2)"

definition np_median :: "arr1 \<Rightarrow> pyfloat" where
  "np_median xs =
     (if xs = [] \<or> list_ex isnan xs then NaN else Fin (median (map fin_val xs)))"

definition np_min :: "arr1 \<Rightarrow> error + pyfloat" where
  "np_min xs =
     (if xs = [] then Inl ValueError
      else Inr (if list_ex isnan xs then NaN else Fin (Min (set (map fin_val xs)))))"

text \<open>Line 176 and the right-hand side of line 179, with \<^verbatim>\<open>mask_nmad = 2.5\<close>:
  \<^verbatim>\<open>np.min(tmp_m) + mask_nmad * np.median(np.abs(tmp_m - np.median(tmp_m)))\<close>.\<close>

definition flux_threshold :: "arr2 \<Rightarrow> error + pyfloat" where
  "flux_threshold tmp_m =
     (let tmp_mad = np_median (map (\<lambda>v. fabs (fsub v (np_median (concat tmp_m)))) (concat tmp_m))
      in and_then (np_min (concat tmp_m)) (\<lambda>mn. Inr (fadd mn (fmul (Fin (5 / 2)) tmp_mad))))"

text \<open>Line 179: \<^verbatim>\<open>mask = tmp_m > threshold\<close>, and \<^verbatim>\<open>mask.sum()\<close>.\<close>

definition spaxel_mask :: "arr2 \<Rightarrow> pyfloat \<Rightarrow> bool list list" where
  "spaxel_mask tmp_m thr = map (map (\<lambda>v. fgt v thr)) tmp_m"

definition mask_sum :: "bool list list \<Rightarrow> nat" where
  "mask_sum msk = length (filter (\<lambda>b. b) (concat msk))"

text \<open>
  Line 188: \<^verbatim>\<open>ddtdata.weight[i_t] * mask[None, :, :]\<close>. A boolean multiplies as 1.0 or 0.0.
  numpy raises ValueError when the spatial shapes differ (it would also accept an axis
  of extent 1 on one side only, which does not occur when \<open>ny\<close> and \<open>nx\<close> are the
  extents of the weight planes).
\<close>

definition mask_weight :: "arr3 \<Rightarrow> bool list list \<Rightarrow> arr3" where
  "mask_weight w msk =
     map (\<lambda>plane. map2 (map2 (\<lambda>v b. fmul v (Fin (if b then 1 else 0)))) plane msk) w"

definition apply_mask :: "arr3 \<Rightarrow> bool list list \<Rightarrow> error + arr3" where
  "apply_mask w msk =
     (if list_all (\<lambda>plane. map length plane = map length msk) w
      then Inr (mask_weight w msk) else Inl ValueError)"

text \<open>\<^verbatim>\<open>math.sqrt\<close>: ValueError on a negative argument, NaN on NaN.\<close>

definition math_sqrt :: "pyfloat \<Rightarrow> error + pyfloat" where
  "math_sqrt v =
     (case v of NaN \<Rightarrow> Inr NaN
      | Fin a \<Rightarrow> if a < 0 then Inl ValueError else Inr (Fin (sqrt a)))"

text \<open>Lines 199 and 200.\<close>

definition distance :: "pyfloat \<times> pyfloat \<Rightarrow> pyfloat \<Rightarrow> pyfloat \<Rightarrow> error + pyfloat" where
  "distance pos x0 y0 =
     math_sqrt (fadd (fmul (fsub (fst pos) x0) (fsub (fst pos) x0))
                     (fmul (fsub (snd pos) y0) (fsub (snd pos) y0)))"

text \<open>Lines 196 to 205, with \<^verbatim>\<open>maxmove_fit_position = 3.0\<close>.\<close>

definition accept_position ::
  "arr1 \<Rightarrow> arr1 \<Rightarrow> nat \<Rightarrow> pyfloat \<times> pyfloat \<Rightarrow> ('h, 'm) regstate \<Rightarrow> error + ('h, 'm) regstate"
  where
  "accept_position xinit yinit i pos st =
     and_then (index xinit i) (\<lambda>x0.
     and_then (index yinit i) (\<lambda>y0.
     and_then (distance pos x0 y0) (\<lambda>dis.
     if flt dis (Fin 3) then
       and_then (store (data_xctr (rs_model st)) i (fst pos)) (\<lambda>xs.
       and_then (store (data_yctr (rs_model st)) i (snd pos)) (\<lambda>ys.
       Inr (st\<lparr>rs_model := (rs_model st)\<lparr>data_xctr := xs, data_yctr := ys\<rparr>\<rparr>)))
     else
       and_then (store (include_in_fit st) i False) (\<lambda>inc.
       Inr (st\<lparr>include_in_fit := inc\<rparr>)))))"

text \<open>The body of the loop, lines 165 to 205, for the epoch \<open>i\<close>, with
  \<^verbatim>\<open>maxiter_fit_position = 100\<close>.\<close>

definition register_epoch ::
  "('h, 'a, 'm) ext \<Rightarrow> arr1 \<Rightarrow> arr1 \<Rightarrow> nat \<Rightarrow> ('h, 'm) regstate
     \<Rightarrow> (('h, 'm) event, ('h, 'm) regstate) exec" where
  "register_epoch ex xinit yinit i st =
     bnd (lift (case is_final_ref (rs_data st) of
                  None \<Rightarrow> Inl IndexError | Some fr \<Rightarrow> index fr i)) (\<lambda>final.
     if \<not> final \<or> int i = master_final_ref (rs_data st) then ret st
     else
     bnd (lift (index (data_xctr (rs_model st)) i)) (\<lambda>xc.
     bnd (lift (index (data_yctr (rs_model st)) i)) (\<lambda>yc.
     bnd (call (Ev_evaluate (rs_model st) i
                  (coords (nx (rs_data st)) xc) (coords (ny (rs_data st)) yc))
               (evaluate ex (rs_model st) i
                  (coords (nx (rs_data st)) xc) (coords (ny (rs_data st)) yc) ''all'')) (\<lambda>m.
     bnd (lift (flux_threshold (sum_axis0 (ny (rs_data st)) (nx (rs_data st)) m))) (\<lambda>thr.
     if mask_sum (spaxel_mask (sum_axis0 (ny (rs_data st)) (nx (rs_data st)) m) thr) < 20
     then ret st
     else
     bnd (lift (index (weight (rs_data st)) i)) (\<lambda>w.
     bnd (lift (apply_mask w
                  (spaxel_mask (sum_axis0 (ny (rs_data st)) (nx (rs_data st)) m) thr)))
       (\<lambda>w'.
     bnd (call (Ev_fit_position ((rs_data st)\<lparr>weight := (weight (rs_data st))[i := w']\<rparr>)
                  (rs_model st) i 100)
               (fit_position ex ((rs_data st)\<lparr>weight := (weight (rs_data st))[i := w']\<rparr>)
                  (rs_model st) i 100)) (\<lambda>(pos, convergence).
     lift (accept_position xinit yinit i pos
             (st\<lparr>rs_data := (rs_data st)\<lparr>weight := (weight (rs_data st))[i := w']\<rparr>\<rparr>))))))))))"

text \<open>\<^verbatim>\<open>for i_t in range(...)\<close>: the body for each epoch in turn; an exception ends the loop.\<close>

fun for_epochs :: "(nat \<Rightarrow> 's \<Rightarrow> ('e, 's) exec) \<Rightarrow> nat list \<Rightarrow> 's \<Rightarrow> ('e, 's) exec" where
  "for_epochs body [] st = ret st"
| "for_epochs body (i # js) st = bnd (body i st) (for_epochs body js)"

text \<open>
  Lines 147 to 208: the copy of the weights, the flags, the loop and the reset of the
  weights. Arrays are values here. In Python the model may keep the very array
  \<^verbatim>\<open>data_xctr_init\<close> it is given as \<^verbatim>\<open>model.data_xctr\<close>; the loop reads
  \<^verbatim>\<open>data_xctr_init[i_t]\<close> (line 199) before it writes \<^verbatim>\<open>model.data_xctr[i_t]\<close> (line 202)
  and touches no other index in that turn, so that sharing would change nothing below.
\<close>

definition registration ::
  "('h, 'a, 'm) ext \<Rightarrow> arr1 \<Rightarrow> arr1 \<Rightarrow> 'h ddtdata \<Rightarrow> 'm ddtmodel
     \<Rightarrow> (('h, 'm) event, ('h, 'm) regstate) exec" where
  "registration ex xinit yinit d mdl =
     bnd (for_epochs (register_epoch ex xinit yinit) [0..<nt d]
            \<lparr>rs_data = d, rs_model = mdl, include_in_fit = replicate (nt d) True\<rparr>)
       (\<lambda>st. ret (st\<lparr>rs_data := (rs_data st)\<lparr>weight := weight d\<rparr>\<rparr>))"

section \<open>The whole of \<^verbatim>\<open>main\<close>\<close>

definition main ::
  "('h, 'a, 'm) ext \<Rightarrow> conf \<Rightarrow> (('h, 'm) event, ('h, 'm) regstate) exec" where
  "main ex c =
     bnd (main_load ex c) (\<lambda>(d, wave_rf, spaxel_sz).
     bnd (main_psf ex c d wave_rf) (\<lambda>psf.
     bnd (main_adr ex c d wave_rf spaxel_sz) (\<lambda>adr.
     bnd (main_model ex c d spaxel_sz psf adr) (\<lambda>(mdl, xinit, yinit).
     bnd (call (Ev_fit_model_all_epoch mdl d) (fit_model_all_epoch ex mdl d)) (\<lambda>mdl'.
     registration ex xinit yinit d mdl')))))"

section \<open>Vocabulary of the properties\<close>

text \<open>The event \<open>e\<close> is a call made while registering the epoch \<open>i\<close>.\<close>

fun registers :: "('h, 'm) event \<Rightarrow> nat \<Rightarrow> bool" where
  "registers (Ev_evaluate mdl j xs ys) i = (j = i)"
| "registers (Ev_fit_position d mdl j n) i = (j = i)"
| "registers e i = False"

text \<open>The event \<open>e\<close> is a call to the fitting or the registration code.\<close>

fun is_fit :: "('h, 'm) event \<Rightarrow> bool" where
  "is_fit (Ev_fit_model_all_epoch mdl d) = True"
| "is_fit (Ev_evaluate mdl j xs ys) = True"
| "is_fit (Ev_fit_position d mdl j n) = True"
| "is_fit e = False"

text \<open>
  From the state \<open>s\<close> to the state \<open>s'\<close> nothing has changed but the weights, the
  registration offsets and the flags of the epochs in \<open>J\<close>.
\<close>

definition frame_except ::
  "nat set \<Rightarrow> ('h, 'm) regstate \<Rightarrow> ('h, 'm) regstate \<Rightarrow> bool" where
  "frame_except J s s' \<longleftrightarrow>
     rs_data s' = (rs_data s)\<lparr>weight := weight (rs_data s')\<rparr> \<and>
     internals (rs_model s') = internals (rs_model s) \<and>
     length (weight (rs_data s')) = length (weight (rs_data s)) \<and>
     length (data_xctr (rs_model s')) = length (data_xctr (rs_model s)) \<and>
     length (data_yctr (rs_model s')) = length (data_yctr (rs_model s)) \<and>
     length (include_in_fit s') = length (include_in_fit s) \<and>
     (\<forall>j. j \<notin> J \<longrightarrow>
        weight (rs_data s') ! j = weight (rs_data s) ! j \<and>
        data_xctr (rs_model s') ! j = data_xctr (rs_model s) ! j \<and>
        data_yctr (rs_model s') ! j = data_yctr (rs_model s) ! j \<and>
        include_in_fit s' ! j = include_in_fit s ! j)"

text \<open>Whatever the computation \<open>m\<close> does, the calls that it adds to the log satisfy \<open>P\<close>.\<close>

definition emits :: "('e \<Rightarrow> bool) \<Rightarrow> ('e, 'x) exec \<Rightarrow> bool" where
  "emits P m \<longleftrightarrow>
     (\<forall>tr r tr'. m tr = (r, tr') \<longrightarrow> (\<exists>new. tr' = tr @ new \<and> list_all P new))"

text \<open>
  The calls of a run of \<^verbatim>\<open>main\<close>: the two reads, and the calls made once the datacube store
  \<open>d\<close> has been built, with the reference wavelength, the extents of \<open>d\<close> and the
  initial offsets as arguments.
\<close>

definition main_event :: "('h, 'a, 'm) ext \<Rightarrow> conf \<Rightarrow> ('h, 'm) event \<Rightarrow> bool" where
  "main_event ex c e \<longleftrightarrow>
     (\<exists>f. e = Ev_read_select_header_keys f) \<or> (\<exists>fs. e = Ev_read_dataset fs) \<or>
     (\<exists>d s tr tr'. main_load ex c tr = (Inr (d, wave_ref_of c, s), tr') \<and>
        (e = Ev_DDTData d \<or>
         (\<exists>es. e = Ev_params_from_gs es (wave d) (wave_ref_of c)) \<or>
         (\<exists>a p t h. e = Ev_differential_refraction a p t h (wave d) (wave_ref_of c)) \<or>
         e = Ev_calc_paralactic_angle \<or> e = Ev_guess_sky \<or>
         e = Ev_DDTModel (nt d, nw d) (data_ctr_init (PARAM_TARGET_XP c) (nt d))
               (data_ctr_init (PARAM_TARGET_YP c) (nt d)) \<or>
         (\<exists>mdl. e = Ev_fit_model_all_epoch mdl d) \<or>
         (\<exists>i. registers e i)))"

section \<open>A worked example\<close>

text \<open>
  Five epochs of one wavelength on a grid of 3 by 7 spaxels; the first four are final
  references, the first one the master. The model flux of the epochs 1 and 2 is 0 on one spaxel and 1
  on the twenty others; the flux of the epoch 3 is \<open>flux3\<close>. The position search moves the
  epoch 1 by one pixel, the epoch 2 by three pixels and leaves the epoch 3 where it is.
  The dataset that the reader returns is \<open>ds\<close>.
\<close>

definition ex_flux :: arr3 where
  "ex_flux = [[[Fin 0, Fin 1, Fin 1, Fin 1, Fin 1, Fin 1, Fin 1],
      [Fin 1, Fin 1, Fin 1, Fin 1, Fin 1, Fin 1, Fin 1],
      [Fin 1, Fin 1, Fin 1, Fin 1, Fin 1, Fin 1, Fin 1]]]"

definition ex_flat :: arr3 where
  "ex_flat = [[[Fin 1, Fin 1, Fin 1, Fin 1, Fin 1, Fin 1, Fin 1],
      [Fin 1, Fin 1, Fin 1, Fin 1, Fin 1, Fin 1, Fin 1],
      [Fin 1, Fin 1, Fin 1, Fin 1, Fin 1, Fin 1, Fin 1]]]"

definition ex_plane :: arr3 where
  "ex_plane = [[[Fin 2, Fin 2, Fin 2, Fin 2, Fin 2, Fin 2, Fin 2],
      [Fin 2, Fin 2, Fin 2, Fin 2, Fin 2, Fin 2, Fin 2],
      [Fin 2, Fin 2, Fin 2, Fin 2, Fin 2, Fin 2, Fin 2]]]"

definition ex_masked :: arr3 where
  "ex_masked = [[[Fin 0, Fin 2, Fin 2, Fin 2, Fin 2, Fin 2, Fin 2],
      [Fin 2, Fin 2, Fin 2, Fin 2, Fin 2, Fin 2, Fin 2],
      [Fin 2, Fin 2, Fin 2, Fin 2, Fin 2, Fin 2, Fin 2]]]"

definition ex_ext :: "arr4 \<times> arr4 \<times> arr1 \<Rightarrow> arr3 \<Rightarrow> (unit, unit, unit) ext" where
  "ex_ext ds flux3 =
     \<lparr>read_select_header_keys = (\<lambda>f. Inr ()),
      read_dataset = (\<lambda>fs. Inr ds),
      params_from_gs = (\<lambda>es wv wr. Inr ((), ())),
      differential_refraction = (\<lambda>a p t h wv wr. Inr ()),
      calc_paralactic_angle = (\<lambda>a ha dec tilt. Inr ()),
      adr_dx_of = (\<lambda>dr s pa. ()),
      adr_dy_of = (\<lambda>dr s pa. ()),
      guess_sky = (\<lambda>d s. Inr ()),
      DDTModel = (\<lambda>shp ell alpha dx dy s mu_xy mu_wave xinit yinit sky.
                   Inr \<lparr>data_xctr = xinit, data_yctr = yinit, internals = ()\<rparr>),
      fit_model_all_epoch = (\<lambda>mdl d. Inr mdl),
      evaluate = (\<lambda>mdl i xs ys which. if i = 3 then Inr flux3 else Inr ex_flux),
      fit_position = (\<lambda>d mdl i n.
                        if i = 1 then Inr ((Fin 1, Fin 0), True)
                        else if i = 2 then Inr ((Fin 3, Fin 0), False)
                        else Inr ((Fin 0, Fin 0), True))\<rparr>"

definition ex_data :: "unit ddtdata" where
  "ex_data =
     \<lparr>data = [ex_plane, ex_plane, ex_plane, ex_plane, ex_plane],
      weight = [ex_plane, ex_plane, ex_plane, ex_plane, ex_plane],
      wave = [Fin 5000], is_final_ref = Some [True, True, True, True, False],
      master_final_ref = 0, header = (), spaxel_size = 1, nt = 5, nw = 1, ny = 3, nx = 7\<rparr>"

definition ex_ctr :: arr1 where
  "ex_ctr = [Fin 0, Fin 0, Fin 0, Fin 0, Fin 0]"

definition ex_model :: "unit ddtmodel" where
  "ex_model = \<lparr>data_xctr = ex_ctr, data_yctr = ex_ctr, internals = ()\<rparr>"

text \<open>The weights after the masking of the epoch 1, of the epochs 1 and 2, and of the
  epochs 1, 2 and 3; the model after the registration of the epoch 1.\<close>

definition ex_weight1 :: arr4 where
  "ex_weight1 = [ex_plane, ex_masked, ex_plane, ex_plane, ex_plane]"

definition ex_weight2 :: arr4 where
  "ex_weight2 = [ex_plane, ex_masked, ex_masked, ex_plane, ex_plane]"


definition ex_model1 :: "unit ddtmodel" where
  "ex_model1 =
     \<lparr>data_xctr = [Fin 0, Fin 1, Fin 0, Fin 0, Fin 0], data_yctr = ex_ctr, internals = ()\<rparr>"

definition ex_final :: "(unit, unit) regstate" where
  "ex_final =
     \<lparr>rs_data = ex_data, rs_model = ex_model1,
      include_in_fit = [True, True, False, True, True]\<rparr>"

definition ex_trace12 :: "(unit, unit) event list" where
  "ex_trace12 =
     [Ev_evaluate ex_model 1 (coords 7 (Fin 0)) (coords 3 (Fin 0)),
      Ev_fit_position (ex_data\<lparr>weight := ex_weight1\<rparr>) ex_model 1 100,
      Ev_evaluate ex_model1 2 (coords 7 (Fin 0)) (coords 3 (Fin 0)),
      Ev_fit_position (ex_data\<lparr>weight := ex_weight2\<rparr>) ex_model1 2 100]"

text \<open>The calls of the run in which the flux of the epoch 3 is flat, and of the run in
  which it is that of the other epochs.\<close>

definition ex_trace :: "(unit, unit) event list" where
  "ex_trace = ex_trace12 @ [Ev_evaluate ex_model1 3 (coords 7 (Fin 0)) (coords 3 (Fin 0))]"


text \<open>
  A dataset of one epoch and 201 wavelengths on a grid of 1 by 2 spaxels, with a NaN in
  the plane 200 of the data; a dataset of one epoch and a single wavelength; and a
  configuration with the apodizer flag, the reference wavelength, the PSF type and the
  target positions as given, each of them absent when \<open>None\<close>.
\<close>

definition ex_ds :: "arr4 \<times> arr4 \<times> arr1" where
  "ex_ds =
     ([replicate 200 [[Fin 1, Fin 1]] @ [[[NaN, Fin 3]]]],
      [replicate 200 [[Fin 1, Fin 1]] @ [[[Fin 4, Fin 5]]]],
      replicate 200 (Fin 4000) @ [Fin 5200])"

definition ex_ds_short :: "arr4 \<times> arr4 \<times> arr1" where
  "ex_ds_short = ([[[[Fin 1, Fin 1]]]], [[[[Fin 1, Fin 1]]]], [Fin 4000])"

definition ex_conf ::
  "int option \<Rightarrow> real option \<Rightarrow> string option \<Rightarrow> real list option \<Rightarrow> real list option
     \<Rightarrow> conf" where
  "ex_conf apodizer lambda_ref psf_type target_xp target_yp =
     \<lparr>FLAG_APODIZER = apodizer, PARAM_SPAXEL_SIZE = Some (43 / 100),
      PARAM_LAMBDA_REF = lambda_ref, PARAM_FINAL_REF = Some 1,
      PARAM_IS_FINAL_REF = Some [True], N_ITER_GALAXY_PRIOR = None,
      IN_CUBE = Some [''cube1.fits''], PARAM_PSF_TYPE = psf_type,
      PARAM_PSF_ES = Some [[1, 2]], PARAM_AIRMASS = Some [11 / 10], PARAM_P = None,
      PARAM_T = None, PARAM_H = None, PARAM_HA = Some [10], PARAM_DEC = Some [20],
      PARAM_MLA_TILT = Some 0, PARAM_TARGET_XP = target_xp, PARAM_TARGET_YP = target_yp,
      MU_GALAXY_XY_PRIOR = Some (1 / 1000), MU_GALAXY_LAMBDA_PRIOR = Some (7 / 100)\<rparr>"

text \<open>The datacube stores built from the two datasets; the calls and the result of the
  run that builds the store \<open>d\<close> and the model with the reference wavelength \<open>w\<close>
  and the initial offsets \<open>xi\<close> and \<open>yi\<close>.\<close>

definition ex_store :: "unit ddtdata" where
  "ex_store =
     \<lparr>data = [[[[Fin 0, Fin (3 * 10 ^ 15)]]]], weight = [[[[Fin 0, Fin (5 / 10 ^ 30)]]]],
      wave = [Fin 5200], is_final_ref = Some [True], master_final_ref = 0, header = (),
      spaxel_size = 43 / 100, nt = 1, nw = 1, ny = 1, nx = 2\<rparr>"

definition ex_store_short :: "unit ddtdata" where
  "ex_store_short =
     \<lparr>data = [[]], weight = [[]], wave = [], is_final_ref = Some [True],
      master_final_ref = 0, header = (), spaxel_size = 43 / 100, nt = 1, nw = 0, ny = 1,
      nx = 2\<rparr>"

definition ex_main_trace :: "unit ddtdata \<Rightarrow> real \<Rightarrow> arr1 \<Rightarrow> arr1 \<Rightarrow> (unit, unit) event list"
  where
  "ex_main_trace d w xi yi =
     [Ev_read_select_header_keys ''cube1.fits'', Ev_read_dataset [''cube1.fits''],
      Ev_DDTData d, Ev_params_from_gs [[1, 2]] (wave d) w,
      Ev_differential_refraction [11 / 10] [615] [2] [0] (wave d) w,
      Ev_calc_paralactic_angle, Ev_guess_sky, Ev_DDTModel (1, nw d) xi yi,
      Ev_fit_model_all_epoch \<lparr>data_xctr = xi, data_yctr = yi, internals = ()\<rparr> d]"

definition ex_main_final :: "unit ddtdata \<Rightarrow> arr1 \<Rightarrow> arr1 \<Rightarrow> (unit, unit) regstate" where
  "ex_main_final d xi yi =
     \<lparr>rs_data = d, rs_model = \<lparr>data_xctr = xi, data_yctr = yi, internals = ()\<rparr>,
      include_in_fit = [True]\<rparr>"

section \<open>Steps and logs\<close>

lemma ret_apply: "ret x tr = (Inr x, tr)" by (simp add: ret_def)

lemma raise_apply: "raise e tr = (Inl e, tr)" by (simp add: raise_def)

lemma lift_apply: "lift r tr = (r, tr)" by (simp add: lift_def)

lemma call_apply: "call ev r tr = (r, tr @ [ev])" by (simp add: call_def)

lemma bnd_apply:
  "bnd m f tr = (case m tr of (Inl e, tr') \<Rightarrow> (Inl e, tr') | (Inr x, tr') \<Rightarrow> f x tr')"
  by (simp add: bnd_def)

lemmas exec_simps = ret_apply raise_apply lift_apply call_apply bnd_apply

lemma bnd_Inr_iff:
  "bnd m f tr = (Inr y, tr2) \<longleftrightarrow> (\<exists>x tr1. m tr = (Inr x, tr1) \<and> f x tr1 = (Inr y, tr2))"
  by (auto simp: bnd_def split: prod.splits sum.splits)

lemma lift_Inr_iff: "lift r tr = (Inr x, tr') \<longleftrightarrow> r = Inr x \<and> tr' = tr"
  by (auto simp: lift_def)

lemma call_Inr_iff: "call ev r tr = (Inr x, tr') \<longleftrightarrow> r = Inr x \<and> tr' = tr @ [ev]"
  by (auto simp: call_def)

lemma ret_Inr_iff: "ret x tr = (Inr y, tr') \<longleftrightarrow> y = x \<and> tr' = tr"
  by (auto simp: ret_def)

lemma index_Inr_iff: "index xs i = Inr v \<longleftrightarrow> i < length xs \<and> v = xs ! i"
  by (auto simp: index_def)

lemma store_Inr_iff: "store xs i v = Inr ys \<longleftrightarrow> i < length xs \<and> ys = xs[i := v]"
  by (auto simp: store_def)

lemma and_then_Inr_iff: "and_then r f = Inr y \<longleftrightarrow> (\<exists>x. r = Inr x \<and> f x = Inr y)"
  by (auto simp: and_then_def split: sum.splits)

lemma register_epoch_cases:
  assumes "register_epoch ex xi yi i st tr = (Inr st', tr')"
  obtains
    (not_ref) fr where "is_final_ref (rs_data st) = Some fr" "i < length fr"
      "\<not> fr ! i \<or> int i = master_final_ref (rs_data st)" "st' = st" "tr' = tr"
  | (skipped) fr m thr where "is_final_ref (rs_data st) = Some fr" "i < length fr"
      "fr ! i" "int i \<noteq> master_final_ref (rs_data st)"
      "i < length (data_xctr (rs_model st))" "i < length (data_yctr (rs_model st))"
      "evaluate ex (rs_model st) i (coords (nx (rs_data st)) (data_xctr (rs_model st) ! i))
         (coords (ny (rs_data st)) (data_yctr (rs_model st) ! i)) ''all'' = Inr m"
      "flux_threshold (sum_axis0 (ny (rs_data st)) (nx (rs_data st)) m) = Inr thr"
      "mask_sum (spaxel_mask (sum_axis0 (ny (rs_data st)) (nx (rs_data st)) m) thr) < 20"
      "st' = st"
      "tr' = tr @ [Ev_evaluate (rs_model st) i (coords (nx (rs_data st)) (data_xctr (rs_model st) ! i))
         (coords (ny (rs_data st)) (data_yctr (rs_model st) ! i))]"
  | (fitted) fr m thr w' pos conv where "is_final_ref (rs_data st) = Some fr" "i < length fr"
      "fr ! i" "int i \<noteq> master_final_ref (rs_data st)"
      "i < length (data_xctr (rs_model st))" "i < length (data_yctr (rs_model st))"
      "evaluate ex (rs_model st) i (coords (nx (rs_data st)) (data_xctr (rs_model st) ! i))
         (coords (ny (rs_data st)) (data_yctr (rs_model st) ! i)) ''all'' = Inr m"
      "flux_threshold (sum_axis0 (ny (rs_data st)) (nx (rs_data st)) m) = Inr thr"
      "\<not> mask_sum (spaxel_mask (sum_axis0 (ny (rs_data st)) (nx (rs_data st)) m) thr) < 20"
      "i < length (weight (rs_data st))"
      "apply_mask (weight (rs_data st) ! i)
         (spaxel_mask (sum_axis0 (ny (rs_data st)) (nx (rs_data st)) m) thr) = Inr w'"
      "fit_position ex ((rs_data st)\<lparr>weight := (weight (rs_data st))[i := w']\<rparr>) (rs_model st) i 100
         = Inr (pos, conv)"
      "accept_position xi yi i pos
         (st\<lparr>rs_data := (rs_data st)\<lparr>weight := (weight (rs_data st))[i := w']\<rparr>\<rparr>) = Inr st'"
      "tr' = tr @ [Ev_evaluate (rs_model st) i (coords (nx (rs_data st)) (data_xctr (rs_model st) ! i))
         (coords (ny (rs_data st)) (data_yctr (rs_model st) ! i)),
         Ev_fit_position ((rs_data st)\<lparr>weight := (weight (rs_data st))[i := w']\<rparr>) (rs_model st) i 100]"
  using assms unfolding register_epoch_def
  by (auto simp: bnd_Inr_iff lift_Inr_iff call_Inr_iff ret_Inr_iff index_Inr_iff
        split: option.splits if_splits prod.splits)

lemma accept_position_cases:
  assumes "accept_position xi yi i pos st = Inr st'"
  obtains dis where "i < length xi" "i < length yi" "distance pos (xi ! i) (yi ! i) = Inr dis"
    "flt dis (Fin 3) \<Longrightarrow> i < length (data_xctr (rs_model st)) \<and> i < length (data_yctr (rs_model st)) \<and>
       st' = st\<lparr>rs_model := (rs_model st)\<lparr>data_xctr := (data_xctr (rs_model st))[i := fst pos],
                                            data_yctr := (data_yctr (rs_model st))[i := snd pos]\<rparr>\<rparr>"
    "\<not> flt dis (Fin 3) \<Longrightarrow> i < length (include_in_fit st) \<and>
       st' = st\<lparr>include_in_fit := (include_in_fit st)[i := False]\<rparr>"
  using assms unfolding accept_position_def
  by (auto simp: and_then_Inr_iff index_Inr_iff store_Inr_iff split: if_splits)

lemma frame_except_refl: "frame_except J s s"
  by (simp add: frame_except_def)

lemma frame_except_trans:
  "frame_except J s1 s2 \<Longrightarrow> frame_except K s2 s3 \<Longrightarrow> frame_except (J \<union> K) s1 s3"
  unfolding frame_except_def by (auto; metis ddtdata.update_convs(2) ddtdata.surjective)

lemma accept_position_frame:
  assumes "accept_position xi yi i pos st = Inr st'"
  shows "frame_except {i} st st'"
proof -
  from assms obtain dis where
    a: "flt dis (Fin 3) \<Longrightarrow> st' = st\<lparr>rs_model := (rs_model st)\<lparr>data_xctr := (data_xctr (rs_model st))[i := fst pos],
                                            data_yctr := (data_yctr (rs_model st))[i := snd pos]\<rparr>\<rparr>"
    and b: "\<not> flt dis (Fin 3) \<Longrightarrow> st' = st\<lparr>include_in_fit := (include_in_fit st)[i := False]\<rparr>"
    by (rule accept_position_cases) blast
  show ?thesis
  proof (cases "flt dis (Fin 3)")
    case True
    with a show ?thesis by (simp add: frame_except_def)
  next
    case False
    with b show ?thesis by (simp add: frame_except_def)
  qed
qed

lemma register_epoch_frame:
  assumes "register_epoch ex xi yi i st tr = (Inr st', tr')"
  shows "frame_except {i} st st'"
  using assms
proof (cases rule: register_epoch_cases)
  case (fitted fr m thr w' pos conv)
  have "frame_except {i} st (st\<lparr>rs_data := (rs_data st)\<lparr>weight := (weight (rs_data st))[i := w']\<rparr>\<rparr>)"
    by (simp add: frame_except_def)
  from frame_except_trans[OF this accept_position_frame[OF fitted(13)]]
  show ?thesis by simp
qed (simp_all add: frame_except_refl)

lemma register_epoch_trace:
  assumes "register_epoch ex xi yi i st tr = (Inr st', tr')"
  shows "\<exists>new. tr' = tr @ new \<and> (\<forall>e\<in>set new. registers e i)"
  using assms by (cases rule: register_epoch_cases) auto

lemma for_epochs_append:
  "for_epochs body (xs @ ys) st = bnd (for_epochs body xs st) (for_epochs body ys)"
  by (induction xs arbitrary: st) (auto simp: bnd_def ret_def split: prod.splits sum.splits)

lemma for_epochs_frame:
  assumes "for_epochs (register_epoch ex xi yi) js st tr = (Inr st', tr')"
  shows "frame_except (set js) st st' \<and>
         (\<exists>new. tr' = tr @ new \<and> (\<forall>e\<in>set new. \<exists>j\<in>set js. registers e j))"
  using assms
proof (induction js arbitrary: st tr)
  case Nil
  then show ?case by (simp add: ret_def frame_except_refl)
next
  case (Cons i js)
  from Cons.prems obtain s1 t1 where
    step: "register_epoch ex xi yi i st tr = (Inr s1, t1)" and
    rest: "for_epochs (register_epoch ex xi yi) js s1 t1 = (Inr st', tr')"
    by (auto simp: bnd_Inr_iff)
  from register_epoch_trace[OF step] obtain n1 where
    n1: "t1 = tr @ n1" "\<forall>e\<in>set n1. registers e i" by blast
  from Cons.IH[OF rest] obtain n2 where
    f2: "frame_except (set js) s1 st'" and
    n2: "tr' = t1 @ n2" "\<forall>e\<in>set n2. \<exists>j\<in>set js. registers e j" by blast
  have "frame_except ({i} \<union> set js) st st'"
    by (rule frame_except_trans[OF register_epoch_frame[OF step] f2])
  moreover have "tr' = tr @ (n1 @ n2)" using n1 n2 by simp
  moreover have "\<forall>e\<in>set (n1 @ n2). \<exists>j\<in>set (i # js). registers e j"
    using n1 n2 by auto
  ultimately show ?case by (metis insert_is_Un list.simps(15))
qed

lemma upt_split: "i < n \<Longrightarrow> [0..<n] = [0..<i] @ i # [Suc i..<n]"
  by (metis less_imp_add_positive upt_add_eq_append upt_rec zero_le add_0)

lemma registration_at:
  assumes run: "registration ex xi yi d0 m0 tr0 = (Inr stF, trF)" and i: "i < nt d0"
  obtains sa sb stL na ni nb where
    "frame_except {..<i} \<lparr>rs_data = d0, rs_model = m0, include_in_fit = replicate (nt d0) True\<rparr> sa"
    "register_epoch ex xi yi i sa (tr0 @ na) = (Inr sb, tr0 @ na @ ni)"
    "frame_except {i<..} sb stL"
    "stF = stL\<lparr>rs_data := (rs_data stL)\<lparr>weight := weight d0\<rparr>\<rparr>"
    "trF = tr0 @ na @ ni @ nb"
    "\<forall>e\<in>set na. \<not> registers e i" "\<forall>e\<in>set nb. \<not> registers e i"
    "\<forall>e\<in>set ni. registers e i"
proof -
  let ?body = "register_epoch ex xi yi"
  let ?s0 = "\<lparr>rs_data = d0, rs_model = m0, include_in_fit = replicate (nt d0) True\<rparr>"
  from run obtain stL where
    loop: "for_epochs ?body [0..<nt d0] ?s0 tr0 = (Inr stL, trF)" and
    fin: "stF = stL\<lparr>rs_data := (rs_data stL)\<lparr>weight := weight d0\<rparr>\<rparr>"
    by (auto simp: registration_def bnd_Inr_iff ret_Inr_iff)
  from loop obtain sa ta sb tb where
    a: "for_epochs ?body [0..<i] ?s0 tr0 = (Inr sa, ta)" and
    b: "?body i sa ta = (Inr sb, tb)" and
    c: "for_epochs ?body [Suc i..<nt d0] sb tb = (Inr stL, trF)"
    unfolding upt_split[OF i] for_epochs_append by (auto simp: bnd_Inr_iff)
  from for_epochs_frame[OF a] obtain na where
    fa: "frame_except (set [0..<i]) ?s0 sa" and na: "ta = tr0 @ na"
      "\<forall>e\<in>set na. \<exists>j\<in>set [0..<i]. registers e j" by blast
  from register_epoch_trace[OF b] obtain ni where
    ni: "tb = ta @ ni" "\<forall>e\<in>set ni. registers e i" by blast
  from for_epochs_frame[OF c] obtain nb where
    fc: "frame_except (set [Suc i..<nt d0]) sb stL" and nb: "trF = tb @ nb"
      "\<forall>e\<in>set nb. \<exists>j\<in>set [Suc i..<nt d0]. registers e j" by blast
  have reg_inj: "\<And>e j. registers e j \<Longrightarrow> registers e i \<Longrightarrow> j = i"
    by (case_tac e) auto
  have 1: "frame_except {..<i} ?s0 sa" using fa by (simp add: atLeast0LessThan)
  have 3: "frame_except {i<..} sb stL"
    using fc unfolding frame_except_def by auto
  have 6: "\<forall>e\<in>set na. \<not> registers e i" using na(2) reg_inj by fastforce
  have 7: "\<forall>e\<in>set nb. \<not> registers e i" using nb(2) reg_inj by fastforce
  show ?thesis
    by (rule that[OF 1 _ 3 fin _ 6 7 ni(2)]) (use b na ni nb in simp_all)
qed


lemma frame_init_at:
  assumes "frame_except {..<i} \<lparr>rs_data = d0, rs_model = m0, include_in_fit = replicate n True\<rparr> sa"
  shows "is_final_ref (rs_data sa) = is_final_ref d0" "master_final_ref (rs_data sa) = master_final_ref d0"
    "nx (rs_data sa) = nx d0" "ny (rs_data sa) = ny d0"
    "weight (rs_data sa) ! i = weight d0 ! i"
    "data_xctr (rs_model sa) ! i = data_xctr m0 ! i"
    "data_yctr (rs_model sa) ! i = data_yctr m0 ! i"
    "include_in_fit sa ! i = replicate n True ! i"
    "length (include_in_fit sa) = n"
    "\<And>j. i < j \<Longrightarrow> weight (rs_data sa) ! j = weight d0 ! j"
proof -
  from assms have eq: "rs_data sa = d0\<lparr>weight := weight (rs_data sa)\<rparr>"
    by (simp add: frame_except_def)
  show "is_final_ref (rs_data sa) = is_final_ref d0" by (subst eq) simp
  show "master_final_ref (rs_data sa) = master_final_ref d0" by (subst eq) simp
  show "nx (rs_data sa) = nx d0" by (subst eq) simp
  show "ny (rs_data sa) = ny d0" by (subst eq) simp
qed (use assms in \<open>simp_all add: frame_except_def\<close>)

lemma frame_final_at:
  assumes "frame_except {i<..} sb stL"
  shows "data_xctr (rs_model (stL\<lparr>rs_data := dd\<rparr>)) ! i = data_xctr (rs_model sb) ! i"
    "data_yctr (rs_model (stL\<lparr>rs_data := dd\<rparr>)) ! i = data_yctr (rs_model sb) ! i"
    "include_in_fit (stL\<lparr>rs_data := dd\<rparr>) ! i = include_in_fit sb ! i"
  using assms by (simp_all add: frame_except_def)



lemma spaxel_mask_shape: "map length (spaxel_mask f thr) = map length f"
  by (simp add: spaxel_mask_def)







section \<open>Calls of the stages of \<^verbatim>\<open>main\<close>\<close>

lemma emitsI:
  assumes "\<And>tr r tr'. m tr = (r, tr') \<Longrightarrow> \<exists>new. tr' = tr @ new \<and> list_all P new"
  shows "emits P m"
  using assms unfolding emits_def by blast

lemma emitsD:
  assumes "emits P m" "m tr = (r, tr')"
  obtains new where "tr' = tr @ new" "list_all P new"
  using assms unfolding emits_def by blast

lemma emits_ret: "emits P (ret x)"
  by (simp add: emits_def ret_def)

lemma emits_raise: "emits P (raise e)"
  by (simp add: emits_def raise_def)

lemma emits_lift: "emits P (lift r)"
  by (simp add: emits_def lift_def)

lemma emits_call: "P ev \<Longrightarrow> emits P (call ev r)"
  by (simp add: emits_def call_def)

lemma emits_bnd:
  assumes m: "emits P m" and f: "\<And>x tr tr'. m tr = (Inr x, tr') \<Longrightarrow> emits P (f x)"
  shows "emits P (bnd m f)"
proof (rule emitsI)
  fix tr r tr'
  assume run: "bnd m f tr = (r, tr')"
  obtain r1 t1 where m1: "m tr = (r1, t1)" by (cases "m tr")
  from emitsD[OF m m1] obtain n1 where n1: "t1 = tr @ n1" "list_all P n1" by blast
  show "\<exists>new. tr' = tr @ new \<and> list_all P new"
  proof (cases r1)
    case (Inl e)
    with run m1 n1 show ?thesis by (auto simp: bnd_def)
  next
    case (Inr x)
    with run m1 have fx: "f x t1 = (r, tr')" by (simp add: bnd_def)
    from emitsD[OF f[OF m1[unfolded Inr]] fx] obtain n2 where "tr' = t1 @ n2" "list_all P n2"
      by blast
    with n1 have "tr' = tr @ (n1 @ n2) \<and> list_all P (n1 @ n2)" by simp
    then show ?thesis by blast
  qed
qed

lemma emits_weaken: "emits P m \<Longrightarrow> (\<And>e. P e \<Longrightarrow> Q e) \<Longrightarrow> emits Q m"
  unfolding emits_def by (metis (mono_tags, lifting) list.pred_mono_strong)

lemma emits_if: "(b \<Longrightarrow> emits P m) \<Longrightarrow> (\<not> b \<Longrightarrow> emits P n) \<Longrightarrow> emits P (if b then m else n)"
  by simp

lemma emits_case_prod: "(\<And>a b. x = (a, b) \<Longrightarrow> emits P (f a b)) \<Longrightarrow> emits P (case x of (a, b) \<Rightarrow> f a b)"
  by (cases x) simp

lemmas emits_intros = emits_bnd emits_ret emits_raise emits_lift emits_call emits_if emits_case_prod

lemma main_psf_emits:
  "emits (\<lambda>e. \<exists>es. e = Ev_params_from_gs es (wave d) w) (main_psf ex c d w)"
  unfolding main_psf_def by (intro emits_intros) blast

lemma main_adr_emits:
  "emits (\<lambda>e. (\<exists>a p t h. e = Ev_differential_refraction a p t h (wave d) w) \<or>
               e = Ev_calc_paralactic_angle) (main_adr ex c d w s)"
  unfolding main_adr_def by (intro emits_intros) blast+

lemma main_model_emits:
  "emits (\<lambda>e. e = Ev_guess_sky \<or>
               e = Ev_DDTModel (nt d, nw d) (data_ctr_init (PARAM_TARGET_XP c) (nt d))
                     (data_ctr_init (PARAM_TARGET_YP c) (nt d)))
     (main_model ex c d s psf adr)"
  unfolding main_model_def by (intro emits_intros) blast+

lemma register_epoch_emits: "emits (\<lambda>e. registers e i) (register_epoch ex xi yi i st)"
  unfolding register_epoch_def by (intro emits_intros) simp_all

lemma for_epochs_emits:
  "emits (\<lambda>e. \<exists>i. registers e i) (for_epochs (register_epoch ex xi yi) js st)"
proof (induction js arbitrary: st)
  case Nil
  show ?case by (simp add: emits_ret)
next
  case (Cons i js)
  have "emits (\<lambda>e. \<exists>i. registers e i) (register_epoch ex xi yi i st)"
    by (rule emits_weaken[OF register_epoch_emits]) blast
  then show ?case unfolding for_epochs.simps by (rule emits_bnd) (rule Cons.IH)
qed

lemma registration_emits:
  "emits (\<lambda>e. \<exists>i. registers e i) (registration ex xi yi d mdl)"
  unfolding registration_def by (intro emits_bnd for_epochs_emits emits_ret)

lemma main_load_Inr:
  assumes "main_load ex c tr = (Inr (d, w, s), tr')"
  obtains cubes cube hdr data0 weight0 wave0 row0 fref where
    "\<not> 2 \<le> conf_get (FLAG_APODIZER c) 0" "PARAM_SPAXEL_SIZE c = Some s"
    "PARAM_FINAL_REF c = Some fref" "IN_CUBE c = Some cubes"
    "read_dataset ex cubes = Inr (data0, weight0, wave0)"
    "first_row data0 = Inr row0"
    "zero_weight_nan (slice_scale (10 ^ 15) data0) (slice_scale (1 / 10 ^ 30) weight0)
       = Inr (data d, weight d)"
    "d = DDTData (length data0, length (take 1 (drop 200 (data0 ! 0))),
                  length (data0 ! 0 ! 0), length row0)
           (data d) (weight d) (take 1 (drop 200 wave0)) (PARAM_IS_FINAL_REF c) (fref - 1) hdr s"
    "w = wave_ref_of c"
    "tr' = tr @ [Ev_read_select_header_keys cube, Ev_read_dataset cubes, Ev_DDTData d]"
    "nt d = length data0" "nw d = length (take 1 (drop 200 (data0 ! 0)))"
    "wave d = take 1 (drop 200 wave0)"
  using assms unfolding main_load_def
  by (auto simp: bnd_Inr_iff lift_Inr_iff call_Inr_iff raise_apply conf_item_def Let_def
        DDTData_def split: if_splits prod.splits option.splits)

lemma main_load_Inl:
  assumes "main_load ex c tr = (Inl e, tr')"
  shows "\<exists>new. tr' = tr @ new \<and>
     list_all (\<lambda>e. (\<exists>f. e = Ev_read_select_header_keys f) \<or> (\<exists>fs. e = Ev_read_dataset fs)) new"
  using assms unfolding main_load_def
  by (auto simp: exec_simps Let_def raise_def split: if_splits prod.splits sum.splits)

lemma main_load_emits: "emits (main_event ex c) (main_load ex c)"
proof (rule emitsI)
  fix tr r tr'
  assume run: "main_load ex c tr = (r, tr')"
  show "\<exists>new. tr' = tr @ new \<and> list_all (main_event ex c) new"
  proof (cases r)
    case (Inl e)
    from main_load_Inl[OF run[unfolded Inl]] show ?thesis
      by (auto simp: list_all_iff main_event_def)
  next
    case (Inr x)
    obtain d w s where x: "x = (d, w, s)" by (cases x)
    note run' = run[unfolded Inr x]
    from run' obtain cubes cube where
      w: "w = wave_ref_of c" and
      tr': "tr' = tr @ [Ev_read_select_header_keys cube, Ev_read_dataset cubes, Ev_DDTData d]"
      by (rule main_load_Inr)
    have "main_event ex c (Ev_DDTData d)"
      unfolding main_event_def using run' w by blast
    with tr' show ?thesis by (simp add: main_event_def)
  qed
qed

lemma main_emits: "emits (main_event ex c) (main ex c)"
  unfolding main_def
proof (rule emits_bnd[OF main_load_emits], rule emits_case_prod, rule emits_case_prod)
  fix x tr tr' d p w s
  assume "main_load ex c tr = (Inr x, tr')" and "x = (d, p)" and "p = (w, s)"
  then have run: "main_load ex c tr = (Inr (d, w, s), tr')" by simp
  then have w: "w = wave_ref_of c" by (rule main_load_Inr)
  note run' = run[unfolded w]
  have after: "\<And>e. e = Ev_DDTData d \<or>
         (\<exists>es. e = Ev_params_from_gs es (wave d) (wave_ref_of c)) \<or>
         (\<exists>a p t h. e = Ev_differential_refraction a p t h (wave d) (wave_ref_of c)) \<or>
         e = Ev_calc_paralactic_angle \<or> e = Ev_guess_sky \<or>
         e = Ev_DDTModel (nt d, nw d) (data_ctr_init (PARAM_TARGET_XP c) (nt d))
               (data_ctr_init (PARAM_TARGET_YP c) (nt d)) \<or>
         (\<exists>mdl. e = Ev_fit_model_all_epoch mdl d) \<or>
         (\<exists>i. registers e i) \<Longrightarrow> main_event ex c e"
    unfolding main_event_def using run' by blast
  have psf: "emits (main_event ex c) (main_psf ex c d w)"
    by (rule emits_weaken[OF main_psf_emits]) (rule after, use w in blast)
  have adr: "emits (main_event ex c) (main_adr ex c d w s)"
    by (rule emits_weaken[OF main_adr_emits]) (rule after, use w in blast)
  have mdl: "\<And>psf adr. emits (main_event ex c) (main_model ex c d s psf adr)"
    by (rule emits_weaken[OF main_model_emits]) (rule after, blast)
  have reg: "\<And>xi yi m. emits (main_event ex c) (registration ex xi yi d m)"
    by (rule emits_weaken[OF registration_emits]) (rule after, blast)
  have fit: "\<And>m r. emits (main_event ex c) (call (Ev_fit_model_all_epoch m d) r)"
    by (rule emits_call) (rule after, blast)
  show "emits (main_event ex c)
          (bnd (main_psf ex c d w) (\<lambda>psf.
           bnd (main_adr ex c d w s) (\<lambda>adr.
           bnd (main_model ex c d s psf adr) (\<lambda>(mdl, xinit, yinit).
           bnd (call (Ev_fit_model_all_epoch mdl d) (fit_model_all_epoch ex mdl d)) (\<lambda>mdl'.
           registration ex xinit yinit d mdl')))))"
    by (intro emits_bnd emits_case_prod psf adr mdl reg fit)
qed

lemma main_events:
  assumes "main ex c [] = (r, tr)" and "e \<in> set tr"
  shows "main_event ex c e"
proof -
  from emitsD[OF main_emits assms(1)] obtain new where "tr = [] @ new" "list_all (main_event ex c) new"
    by blast
  with assms(2) show ?thesis by (simp add: list_all_iff)
qed

lemma map_eq_nth:
  "map f xs = map g ys \<Longrightarrow> i < length xs \<Longrightarrow> i < length ys \<and> f (xs ! i) = g (ys ! i)"
  by (metis length_map nth_map)

lemma shape_of_nth:
  assumes "shape_of a = shape_of b" "t < length a" "k < length (a ! t)" "y < length (a ! t ! k)"
  shows "t < length b" "k < length (b ! t)" "y < length (b ! t ! k)"
    "length (b ! t ! k ! y) = length (a ! t ! k ! y)"
proof -
  from assms(1,2) have 1: "t < length b \<and> map (map length) (a ! t) = map (map length) (b ! t)"
    unfolding shape_of_def by (rule map_eq_nth)
  from 1 assms(3) have 2: "k < length (b ! t) \<and> map length (a ! t ! k) = map length (b ! t ! k)"
    by (blast dest: map_eq_nth)
  from 2 assms(4) have 3: "y < length (b ! t ! k) \<and> length (a ! t ! k ! y) = length (b ! t ! k ! y)"
    by (blast dest: map_eq_nth)
  from 1 2 3 show "t < length b" "k < length (b ! t)" "y < length (b ! t ! k)"
    "length (b ! t ! k ! y) = length (a ! t ! k ! y)" by simp_all
qed

lemma shape_zero_nan_data: "shape_of (zero_nan_data a) = shape_of a"
  by (simp add: shape_of_def zero_nan_data_def comp_def)

lemma zero_nan_data_nth:
  assumes "t < length a" "k < length (a ! t)" "y < length (a ! t ! k)" "x < length (a ! t ! k ! y)"
  shows "zero_nan_data a ! t ! k ! y ! x =
           (if isnan (a ! t ! k ! y ! x) then Fin 0 else a ! t ! k ! y ! x)"
  using assms by (simp add: zero_nan_data_def)

lemma zero_nan_weight_nth:
  assumes "shape_of a = shape_of b"
    "t < length a" "k < length (a ! t)" "y < length (a ! t ! k)" "x < length (a ! t ! k ! y)"
  shows "zero_nan_weight a b ! t ! k ! y ! x =
           (if isnan (a ! t ! k ! y ! x) then Fin 0 else b ! t ! k ! y ! x)"
  using assms shape_of_nth[OF assms(1-4)] by (simp add: zero_nan_weight_def)

lemma map2_same_length: "map f xs = map g ys \<Longrightarrow> length xs = length ys"
  by (metis length_map)

lemma shape_zero_nan_weight:
  assumes "shape_of a = shape_of b"
  shows "shape_of (zero_nan_weight a b) = shape_of a"
proof -
  have l1: "length (map2 h (xs :: pyfloat list) ys) = length xs" if "length xs = length ys"
    for h :: "pyfloat \<Rightarrow> pyfloat \<Rightarrow> pyfloat" and xs ys
    using that by simp
  have l2: "map length (map2 (map2 h) (p :: pyfloat list list) q) = map length p"
    if "map length p = map length q" for h :: "pyfloat \<Rightarrow> pyfloat \<Rightarrow> pyfloat" and p q
  proof (rule nth_equalityI)
    from that have len: "length p = length q" by (rule map2_same_length)
    then show "length (map length (map2 (map2 h) p q)) = length (map length p)" by simp
    fix i assume "i < length (map length (map2 (map2 h) p q))"
    with len have i: "i < length p" "i < length q" by simp_all
    from map_eq_nth[OF that i(1)] have "length (p ! i) = length (q ! i)" by simp
    with i show "map length (map2 (map2 h) p q) ! i = map length p ! i" by simp
  qed
  have l3: "map (map length) (map2 (map2 (map2 h)) (e :: pyfloat list list list) g) = map (map length) e"
    if "map (map length) e = map (map length) g" for h :: "pyfloat \<Rightarrow> pyfloat \<Rightarrow> pyfloat" and e g
  proof (rule nth_equalityI)
    from that have len: "length e = length g" by (rule map2_same_length)
    then show "length (map (map length) (map2 (map2 (map2 h)) e g)) = length (map (map length) e)"
      by simp
    fix i assume "i < length (map (map length) (map2 (map2 (map2 h)) e g))"
    with len have i: "i < length e" "i < length g" by simp_all
    from map_eq_nth[OF that i(1)] have "map length (e ! i) = map length (g ! i)" by simp
    from l2[OF this] i
    show "map (map length) (map2 (map2 (map2 h)) e g) ! i = map (map length) e ! i" by simp
  qed
  show ?thesis unfolding shape_of_def zero_nan_weight_def
  proof (rule nth_equalityI)
    from assms have len: "length a = length b" unfolding shape_of_def by (rule map2_same_length)
    then show "length (map (map (map length))
        (map2 (map2 (map2 (map2 (\<lambda>v u. if isnan v then Fin 0 else u)))) a b))
        = length (map (map (map length)) a)" by simp
    fix i assume "i < length (map (map (map length))
        (map2 (map2 (map2 (map2 (\<lambda>v u. if isnan v then Fin 0 else u)))) a b))"
    with len have i: "i < length a" "i < length b" by simp_all
    from map_eq_nth[OF assms[unfolded shape_of_def] i(1)]
    have "map (map length) (a ! i) = map (map length) (b ! i)" by simp
    from l3[OF this] i
    show "map (map (map length))
        (map2 (map2 (map2 (map2 (\<lambda>v u. if isnan v then Fin 0 else u)))) a b) ! i
        = map (map (map length)) a ! i" by simp
  qed
qed

lemma zero_weight_nan_Inr:
  assumes "zero_weight_nan a b = Inr (a', b')"
  shows "shape_of a = shape_of b" "a' = zero_nan_data a" "b' = zero_nan_weight a b"
  using assms by (auto simp: zero_weight_nan_def split: if_splits)

lemma main_psf_unsupported:
  assumes "PARAM_PSF_TYPE c \<noteq> Some ''GS-PSF''"
  shows "\<exists>e. main_psf ex c d w tr = (Inl e, tr)"
  using assms unfolding main_psf_def
  by (cases "PARAM_PSF_TYPE c") (simp_all add: exec_simps conf_item_def)

lemma not_fit_main_load:
  assumes "main_load ex c [] = (r, tr)"
  shows "\<forall>e\<in>set tr. \<not> is_fit e"
proof (cases r)
  case (Inl e)
  from main_load_Inl[OF assms[unfolded Inl]] show ?thesis
    by (auto simp: list_all_iff)
next
  case (Inr x)
  obtain d w s where "x = (d, w, s)" by (cases x)
  with assms Inr have "main_load ex c [] = (Inr (d, w, s), tr)" by simp
  then obtain cubes cube where
    "tr = [] @ [Ev_read_select_header_keys cube, Ev_read_dataset cubes, Ev_DDTData d]"
    by (rule main_load_Inr)
  then show ?thesis by simp
qed

lemma take1_drop_long: "n < length xs \<Longrightarrow> take 1 (drop n xs) = [xs ! n]"
  by (metis Cons_nth_drop_Suc One_nat_def take0 take_Suc_Cons)

lemma take1_drop_short: "length xs \<le> n \<Longrightarrow> take 1 (drop n xs) = []"
  by simp

lemma slice_scale_nth:
  "t < length a \<Longrightarrow>
     slice_scale k a ! t = map (map (map (\<lambda>v. fmul v (Fin k)))) (take 1 (drop 200 (a ! t)))"
  by (simp add: slice_scale_def)

section \<open>The worked example, evaluated\<close>

lemma ex_thr: "flux_threshold (sum_axis0 3 7 ex_flux) = Inr (Fin 0)"
  by code_simp

lemma ex_thr_flat: "flux_threshold (sum_axis0 3 7 ex_flat) = Inr (Fin 1)"
  by code_simp

lemma ex_sum: "mask_sum (spaxel_mask (sum_axis0 3 7 ex_flux) (Fin 0)) = 20"
  by code_simp

lemma ex_sum_flat: "mask_sum (spaxel_mask (sum_axis0 3 7 ex_flat) (Fin 1)) = 0"
  by code_simp

lemma ex_apply: "apply_mask ex_plane (spaxel_mask (sum_axis0 3 7 ex_flux) (Fin 0)) = Inr ex_masked"
  by code_simp

lemma sqrt9: "sqrt 9 = 3"
  by (rule real_sqrt_unique) simp_all


lemma ex_dist1: "distance (Fin 1, Fin 0) (Fin 0) (Fin 0) = Inr (Fin 1)"
  by (simp add: distance_def math_sqrt_def)

lemma ex_dist2: "distance (Fin 3, Fin 0) (Fin 0) (Fin 0) = Inr (Fin 3)"
  by (simp add: distance_def math_sqrt_def sqrt9)

lemma ex_step0: "register_epoch (ex_ext ds f3) ex_ctr ex_ctr 0
    \<lparr>rs_data = ex_data, rs_model = ex_model, include_in_fit = [True, True, True, True, True]\<rparr> tr
  = (Inr \<lparr>rs_data = ex_data, rs_model = ex_model, include_in_fit = [True, True, True, True, True]\<rparr>, tr)"
  by (simp add: register_epoch_def exec_simps ex_data_def index_def)

lemma ex_step1: "register_epoch (ex_ext ds f3) ex_ctr ex_ctr (Suc 0)
    \<lparr>rs_data = ex_data, rs_model = ex_model, include_in_fit = [True, True, True, True, True]\<rparr> tr
  = (Inr \<lparr>rs_data = ex_data\<lparr>weight := ex_weight1\<rparr>, rs_model = ex_model1,
           include_in_fit = [True, True, True, True, True]\<rparr>,
     tr @ [Ev_evaluate ex_model 1 (coords 7 (Fin 0)) (coords 3 (Fin 0)),
           Ev_fit_position (ex_data\<lparr>weight := ex_weight1\<rparr>) ex_model 1 100])"
  by (simp add: register_epoch_def exec_simps ex_data_def index_def ex_ext_def ex_model_def ex_ctr_def
      ex_thr ex_sum ex_apply accept_position_def and_then_def store_def ex_dist1 ex_weight1_def
      ex_model1_def)

lemma ex_step2: "register_epoch (ex_ext ds f3) ex_ctr ex_ctr 2
    \<lparr>rs_data = ex_data\<lparr>weight := ex_weight1\<rparr>, rs_model = ex_model1,
     include_in_fit = [True, True, True, True, True]\<rparr> tr
  = (Inr \<lparr>rs_data = ex_data\<lparr>weight := ex_weight2\<rparr>, rs_model = ex_model1,
           include_in_fit = [True, True, False, True, True]\<rparr>,
     tr @ [Ev_evaluate ex_model1 2 (coords 7 (Fin 0)) (coords 3 (Fin 0)),
           Ev_fit_position (ex_data\<lparr>weight := ex_weight2\<rparr>) ex_model1 2 100])"
  by (simp add: register_epoch_def exec_simps ex_data_def index_def ex_ext_def ex_ctr_def
      ex_thr ex_sum ex_apply accept_position_def and_then_def store_def ex_dist2 ex_weight1_def
      ex_weight2_def ex_model1_def)

lemma ex_step3: "register_epoch (ex_ext ds ex_flat) ex_ctr ex_ctr 3
    \<lparr>rs_data = ex_data\<lparr>weight := ex_weight2\<rparr>, rs_model = ex_model1,
     include_in_fit = [True, True, False, True, True]\<rparr> tr
  = (Inr \<lparr>rs_data = ex_data\<lparr>weight := ex_weight2\<rparr>, rs_model = ex_model1,
           include_in_fit = [True, True, False, True, True]\<rparr>,
     tr @ [Ev_evaluate ex_model1 3 (coords 7 (Fin 0)) (coords 3 (Fin 0))])"
  by (simp add: register_epoch_def exec_simps ex_data_def index_def ex_ext_def ex_ctr_def
      ex_thr_flat ex_sum_flat ex_model1_def)


lemma ex_step4: "register_epoch (ex_ext ds f3) ex_ctr ex_ctr 4
    \<lparr>rs_data = ex_data\<lparr>weight := w\<rparr>, rs_model = mdl, include_in_fit = inc\<rparr> tr
  = (Inr \<lparr>rs_data = ex_data\<lparr>weight := w\<rparr>, rs_model = mdl, include_in_fit = inc\<rparr>, tr)"
  by (simp add: register_epoch_def exec_simps ex_data_def index_def)

lemma upt5: "[0..<5] = [0, 1, 2, 3, 4]"
  by (simp add: upt_rec)

lemma ex_run:
  "registration (ex_ext ds ex_flat) ex_ctr ex_ctr ex_data ex_model [] = (Inr ex_final, [] @ ex_trace)"
proof -
  have nt: "nt ex_data = 5" by (simp add: ex_data_def)
  have rep: "replicate 5 True = [True, True, True, True, True]" by (simp add: numeral_eq_Suc)
  have upd: "(ex_data\<lparr>weight := ex_weight2\<rparr>)\<lparr>weight := weight ex_data\<rparr> = ex_data" by simp
  show ?thesis
    unfolding registration_def nt upt5 rep
    by (simp add: bnd_apply ret_apply ex_step0 ex_step1 ex_step2 ex_step3 ex_step4 upd
        ex_final_def ex_trace_def ex_trace12_def)
qed


lemma ex_load:
  "main_load (ex_ext ex_ds f3) (ex_conf None lref psf xp yp) [] =
     (Inr (ex_store, conf_get lref 5000, 43 / 100),
      [Ev_read_select_header_keys ''cube1.fits'', Ev_read_dataset [''cube1.fits''],
       Ev_DDTData ex_store])"
  unfolding main_load_def
  by (simp add: ex_conf_def conf_get_def conf_item_def exec_simps index_def ex_ext_def ex_ds_def
      first_row_def and_then_def nth_append slice_scale_def zero_weight_nan_def shape_of_def
      zero_nan_data_def zero_nan_weight_def Let_def DDTData_def ex_store_def wave_ref_of_def)

lemma ex_load_short:
  "main_load (ex_ext ex_ds_short f3) (ex_conf None lref psf xp yp) [] =
     (Inr (ex_store_short, conf_get lref 5000, 43 / 100),
      [Ev_read_select_header_keys ''cube1.fits'', Ev_read_dataset [''cube1.fits''],
       Ev_DDTData ex_store_short])"
  unfolding main_load_def
  by (simp add: ex_conf_def conf_get_def conf_item_def exec_simps index_def ex_ext_def
      ex_ds_short_def first_row_def and_then_def slice_scale_def zero_weight_nan_def shape_of_def
      zero_nan_data_def zero_nan_weight_def Let_def DDTData_def ex_store_short_def
      wave_ref_of_def)

lemma ex_ext_calls:
  "read_select_header_keys (ex_ext ds f3) = (\<lambda>f. Inr ())"
  "read_dataset (ex_ext ds f3) = (\<lambda>fs. Inr ds)"
  "params_from_gs (ex_ext ds f3) = (\<lambda>es wv wr. Inr ((), ()))"
  "differential_refraction (ex_ext ds f3) = (\<lambda>a p t h wv wr. Inr ())"
  "calc_paralactic_angle (ex_ext ds f3) = (\<lambda>a ha dec tilt. Inr ())"
  "guess_sky (ex_ext ds f3) = (\<lambda>d s. Inr ())"
  "DDTModel (ex_ext ds f3) = (\<lambda>shp ell alpha dx dy s mu_xy mu_wave xinit yinit sky.
     Inr \<lparr>data_xctr = xinit, data_yctr = yinit, internals = ()\<rparr>)"
  "fit_model_all_epoch (ex_ext ds f3) = (\<lambda>mdl d. Inr mdl)"
  by (simp_all add: ex_ext_def)

lemma ex_after_load:
  assumes "nt d = 1" "is_final_ref d = Some [True]" "master_final_ref d = 0"
  shows "bnd (main_psf (ex_ext ds f3) (ex_conf apod lref (Some ''GS-PSF'') xp yp) d w) (\<lambda>psf.
     bnd (main_adr (ex_ext ds f3) (ex_conf apod lref (Some ''GS-PSF'') xp yp) d w (43 / 100)) (\<lambda>adr.
     bnd (main_model (ex_ext ds f3) (ex_conf apod lref (Some ''GS-PSF'') xp yp) d (43 / 100) psf adr)
       (\<lambda>(mdl, xinit, yinit).
     bnd (call (Ev_fit_model_all_epoch mdl d) (fit_model_all_epoch (ex_ext ds f3) mdl d)) (\<lambda>mdl'.
     registration (ex_ext ds f3) xinit yinit d mdl'))))
     [Ev_read_select_header_keys ''cube1.fits'', Ev_read_dataset [''cube1.fits''], Ev_DDTData d]
   = (Inr (ex_main_final d (data_ctr_init xp 1) (data_ctr_init yp 1)),
      ex_main_trace d w (data_ctr_init xp 1) (data_ctr_init yp 1))"
proof -
  have upt1: "[0..<1] = [0]" by simp
  have reg: "registration (ex_ext ds f3) xi yi d mdl tr =
      (Inr \<lparr>rs_data = d, rs_model = mdl, include_in_fit = [True]\<rparr>, tr)"
    for xi yi tr mdl
    unfolding registration_def assms upt1
    by (simp add: exec_simps register_epoch_def assms index_def)
  show ?thesis
    by (simp add: main_psf_def main_adr_def main_model_def exec_simps ex_conf_def conf_item_def
        conf_get_def ex_ext_calls assms reg ex_main_trace_def ex_main_final_def)
qed

lemma ex_main_run:
  "main (ex_ext ex_ds f3) (ex_conf None lref (Some ''GS-PSF'') xp yp) [] =
     (Inr (ex_main_final ex_store (data_ctr_init xp 1) (data_ctr_init yp 1)),
      ex_main_trace ex_store (conf_get lref 5000) (data_ctr_init xp 1) (data_ctr_init yp 1))"
  unfolding main_def bnd_apply[of "main_load (ex_ext ex_ds f3) (ex_conf None lref (Some ''GS-PSF'') xp yp)"]
    ex_load
  by (simp add: ex_after_load ex_store_def)

lemma ex_main_run_short:
  "main (ex_ext ex_ds_short f3) (ex_conf None lref (Some ''GS-PSF'') xp yp) [] =
     (Inr (ex_main_final ex_store_short (data_ctr_init xp 1) (data_ctr_init yp 1)),
      ex_main_trace ex_store_short (conf_get lref 5000) (data_ctr_init xp 1) (data_ctr_init yp 1))"
  unfolding main_def
    bnd_apply[of "main_load (ex_ext ex_ds_short f3) (ex_conf None lref (Some ''GS-PSF'') xp yp)"]
    ex_load_short
  by (simp add: ex_after_load ex_store_short_def)

lemma ex_main_run_apodizer:
  "main (ex_ext ex_ds f3) (ex_conf (Some 2) lref psf xp yp) [] =
     (Inl (RuntimeError ''FLAG_APODIZER >= 2 not implemented''), [])"
  by (simp add: main_def main_load_def exec_simps conf_get_def ex_conf_def)

lemma ex_main_run_psf:
  "main (ex_ext ex_ds f3) (ex_conf None lref (Some ''G-PSF'') xp yp) [] =
     (Inl (RuntimeError ''G-PSF (from FITS files) not implemented''),
      [Ev_read_select_header_keys ''cube1.fits'', Ev_read_dataset [''cube1.fits''],
       Ev_DDTData ex_store])"
  unfolding main_def bnd_apply[of "main_load (ex_ext ex_ds f3) (ex_conf None lref (Some ''G-PSF'') xp yp)"]
    ex_load
  by (simp add: main_psf_def exec_simps conf_item_def ex_conf_def)

section \<open>The claims\<close>











text \<open>
  Claim C5. In every run of \<^verbatim>\<open>main\<close>, the datacube store handed to \<open>fit_model_all_epoch\<close>, the
  first fit, has the shape of the sliced input; at every element where the sliced and
  scaled input data is NaN its data and its weight are 0.0, and at every other element
  its data and its weight are those of the sliced and scaled input. The neutralization
  itself raises for no value of the data: it returns whenever data and weight have the
  same shape.
\<close>

theorem nan_neutralized:
  "(main ex c [] = (r, tr) \<and> Ev_fit_model_all_epoch mdl d \<in> set tr \<longrightarrow>
      (\<exists>cubes data0 weight0 wave0.
         IN_CUBE c = Some cubes \<and> read_dataset ex cubes = Inr (data0, weight0, wave0) \<and>
         (let din = slice_scale (10 ^ 15) data0; win = slice_scale (1 / 10 ^ 30) weight0
          in shape_of (data d) = shape_of din \<and> shape_of (weight d) = shape_of din \<and>
             (\<forall>t k y x. t < length din \<and> k < length (din ! t) \<and> y < length (din ! t ! k) \<and>
                  x < length (din ! t ! k ! y) \<longrightarrow>
                (if isnan (din ! t ! k ! y ! x)
                 then data d ! t ! k ! y ! x = Fin 0 \<and> weight d ! t ! k ! y ! x = Fin 0
                 else data d ! t ! k ! y ! x = din ! t ! k ! y ! x \<and>
                      weight d ! t ! k ! y ! x = win ! t ! k ! y ! x))))) \<and>
   (\<forall>dd ww. shape_of dd = shape_of ww \<longrightarrow> (\<exists>res. zero_weight_nan dd ww = Inr res))"
proof (intro conjI impI allI)
  fix dd ww :: arr4
  assume "shape_of dd = shape_of ww"
  then show "\<exists>res. zero_weight_nan dd ww = Inr res" by (simp add: zero_weight_nan_def)
next
  assume "main ex c [] = (r, tr) \<and> Ev_fit_model_all_epoch mdl d \<in> set tr"
  then have "main_event ex c (Ev_fit_model_all_epoch mdl d)" by (blast intro: main_events)
  then obtain s t0 t1 where "main_load ex c t0 = (Inr (d, wave_ref_of c, s), t1)"
    by (auto simp: main_event_def)
  then obtain cubes data0 weight0 wave0 where
    cubes: "IN_CUBE c = Some cubes" "read_dataset ex cubes = Inr (data0, weight0, wave0)" and
    z: "zero_weight_nan (slice_scale (10 ^ 15) data0) (slice_scale (1 / 10 ^ 30) weight0)
       = Inr (data d, weight d)"
    by (rule main_load_Inr)
  define din where "din = slice_scale (10 ^ 15) data0"
  define win where "win = slice_scale (1 / 10 ^ 30) weight0"
  note zz = zero_weight_nan_Inr[OF z[folded din_def win_def]]
  have cell: "if isnan (din ! t ! k ! y ! x)
                 then data d ! t ! k ! y ! x = Fin 0 \<and> weight d ! t ! k ! y ! x = Fin 0
                 else data d ! t ! k ! y ! x = din ! t ! k ! y ! x \<and>
                      weight d ! t ! k ! y ! x = win ! t ! k ! y ! x"
    if "t < length din \<and> k < length (din ! t) \<and> y < length (din ! t ! k) \<and>
        x < length (din ! t ! k ! y)" for t k y x
    using that zero_nan_data_nth[of t din k y x] zero_nan_weight_nth[OF zz(1), of t k y x]
    unfolding zz(2,3) by simp
  have "shape_of (data d) = shape_of din" "shape_of (weight d) = shape_of din"
    unfolding zz(2,3) by (simp_all add: shape_zero_nan_data shape_zero_nan_weight[OF zz(1)])
  with cell cubes
  show "\<exists>cubes data0 weight0 wave0.
         IN_CUBE c = Some cubes \<and> read_dataset ex cubes = Inr (data0, weight0, wave0) \<and>
         (let din = slice_scale (10 ^ 15) data0; win = slice_scale (1 / 10 ^ 30) weight0
          in shape_of (data d) = shape_of din \<and> shape_of (weight d) = shape_of din \<and>
             (\<forall>t k y x. t < length din \<and> k < length (din ! t) \<and> y < length (din ! t ! k) \<and>
                  x < length (din ! t ! k ! y) \<longrightarrow>
                (if isnan (din ! t ! k ! y ! x)
                 then data d ! t ! k ! y ! x = Fin 0 \<and> weight d ! t ! k ! y ! x = Fin 0
                 else data d ! t ! k ! y ! x = din ! t ! k ! y ! x \<and>
                      weight d ! t ! k ! y ! x = win ! t ! k ! y ! x)))"
    unfolding din_def win_def Let_def by blast
qed

text \<open>
  The run on the dataset of the worked example, whose plane 200 holds a NaN.
\<close>

theorem nan_neutralized_witness:
  "main (ex_ext ex_ds ex_flat) (ex_conf None None (Some ''GS-PSF'') None None) [] =
     (Inr (ex_main_final ex_store [Fin 0] [Fin 0]), ex_main_trace ex_store 5000 [Fin 0] [Fin 0]) \<and>
   Ev_fit_model_all_epoch \<lparr>data_xctr = [Fin 0], data_yctr = [Fin 0], internals = ()\<rparr> ex_store
     \<in> set (ex_main_trace ex_store 5000 [Fin 0] [Fin 0]) \<and>
   isnan (fst ex_ds ! 0 ! 200 ! 0 ! 0) \<and>
   data ex_store ! 0 ! 0 ! 0 ! 0 = Fin 0 \<and> weight ex_store ! 0 ! 0 ! 0 ! 0 = Fin 0 \<and>
   (\<exists>cubes data0 weight0 wave0.
         IN_CUBE (ex_conf None None (Some ''GS-PSF'') None None) = Some cubes \<and>
         read_dataset (ex_ext ex_ds ex_flat) cubes = Inr (data0, weight0, wave0) \<and>
         (let din = slice_scale (10 ^ 15) data0; win = slice_scale (1 / 10 ^ 30) weight0
          in shape_of (data ex_store) = shape_of din \<and> shape_of (weight ex_store) = shape_of din \<and>
             (\<forall>t k y x. t < length din \<and> k < length (din ! t) \<and> y < length (din ! t ! k) \<and>
                  x < length (din ! t ! k ! y) \<longrightarrow>
                (if isnan (din ! t ! k ! y ! x)
                 then data ex_store ! t ! k ! y ! x = Fin 0 \<and> weight ex_store ! t ! k ! y ! x = Fin 0
                 else data ex_store ! t ! k ! y ! x = din ! t ! k ! y ! x \<and>
                      weight ex_store ! t ! k ! y ! x = win ! t ! k ! y ! x)))) \<and>
   shape_of [[[[NaN]]]] = shape_of [[[[Fin 1]]]] \<and>
   (\<exists>res. zero_weight_nan [[[[NaN]]]] [[[[Fin 1]]]] = Inr res)"
proof -
  have run: "main (ex_ext ex_ds ex_flat) (ex_conf None None (Some ''GS-PSF'') None None) [] =
     (Inr (ex_main_final ex_store [Fin 0] [Fin 0]), ex_main_trace ex_store 5000 [Fin 0] [Fin 0])"
    using ex_main_run[of ex_flat None None None] by (simp add: data_ctr_init_def conf_get_def)
  have ev: "Ev_fit_model_all_epoch \<lparr>data_xctr = [Fin 0], data_yctr = [Fin 0], internals = ()\<rparr> ex_store
     \<in> set (ex_main_trace ex_store 5000 [Fin 0] [Fin 0])"
    by (simp add: ex_main_trace_def)
  have nan: "isnan (fst ex_ds ! 0 ! 200 ! 0 ! 0)" by (simp add: ex_ds_def nth_append)
  have zero: "data ex_store ! 0 ! 0 ! 0 ! 0 = Fin 0" "weight ex_store ! 0 ! 0 ! 0 ! 0 = Fin 0"
    by (simp_all add: ex_store_def)
  have shp: "shape_of [[[[NaN]]]] = shape_of [[[[Fin 1]]]]" by (simp add: shape_of_def)
  note th = nan_neutralized[THEN conjunct1, THEN mp, OF conjI[OF run ev]]
  note ne = nan_neutralized[THEN conjunct2, rule_format, OF shp]
  show ?thesis
    by (rule conjI[OF run conjI[OF ev conjI[OF nan conjI[OF zero(1) conjI[OF zero(2)
          conjI[OF th conjI[OF shp ne]]]]]]])
qed

text \<open>
  Claim C6. The registration stage leaves the offsets of every epoch that is not a final
  reference, or that is the master final reference, as they were.
\<close>

theorem registration_frame:
  assumes run: "registration ex xi yi d0 m0 tr0 = (Inr stF, trF)"
    and i: "i < nt d0"
    and nonref: "(\<exists>fr. is_final_ref d0 = Some fr \<and> \<not> fr ! i) \<or> int i = master_final_ref d0"
  shows "data_xctr (rs_model stF) ! i = data_xctr m0 ! i \<and>
         data_yctr (rs_model stF) ! i = data_yctr m0 ! i"
proof -
  from run i obtain sa sb stL na ni nb where
    fa: "frame_except {..<i} \<lparr>rs_data = d0, rs_model = m0, include_in_fit = replicate (nt d0) True\<rparr> sa"
    and step: "register_epoch ex xi yi i sa (tr0 @ na) = (Inr sb, tr0 @ na @ ni)"
    and fb: "frame_except {i<..} sb stL"
    and fin: "stF = stL\<lparr>rs_data := (rs_data stL)\<lparr>weight := weight d0\<rparr>\<rparr>"
    by (rule registration_at)
  note init = frame_init_at[OF fa]
  have no: "\<And>fr. is_final_ref (rs_data sa) = Some fr \<Longrightarrow> fr ! i \<Longrightarrow>
      int i \<noteq> master_final_ref (rs_data sa) \<Longrightarrow> False"
    using nonref init(1,2) by auto
  from step have "sb = sa"
  proof (cases rule: register_epoch_cases)
    case (not_ref fr)
    then show ?thesis by simp
  next
    case (skipped fr m thr)
    with no show ?thesis by blast
  next
    case (fitted fr m thr w' pos conv)
    with no show ?thesis by blast
  qed
  with init frame_final_at[OF fb] fin show ?thesis by simp
qed

text \<open>
  The master epoch of the worked example.
\<close>

theorem registration_frame_witness:
  "registration (ex_ext ex_ds ex_flat) ex_ctr ex_ctr ex_data ex_model [] = (Inr ex_final, ex_trace) \<and>
   0 < nt ex_data \<and> int 0 = master_final_ref ex_data \<and>
   data_xctr (rs_model ex_final) ! 0 = data_xctr ex_model ! 0 \<and>
   data_yctr (rs_model ex_final) ! 0 = data_yctr ex_model ! 0 \<and>
   4 < nt ex_data \<and> is_final_ref ex_data = Some [True, True, True, True, False] \<and>
   \<not> [True, True, True, True, False] ! 4 \<and>
   data_xctr (rs_model ex_final) ! 4 = data_xctr ex_model ! 4 \<and>
   data_yctr (rs_model ex_final) ! 4 = data_yctr ex_model ! 4"
proof -
  note run = ex_run[of ex_ds]
  have run': "registration (ex_ext ex_ds ex_flat) ex_ctr ex_ctr ex_data ex_model []
      = (Inr ex_final, ex_trace)"
    using run by simp
  have e0: "0 < nt ex_data" and e4: "4 < nt ex_data"
    and m0: "int 0 = master_final_ref ex_data"
    and fr: "is_final_ref ex_data = Some [True, True, True, True, False]"
    by (simp_all add: ex_data_def)
  have n4: "\<not> [True, True, True, True, False] ! 4" by simp
  have h4: "\<exists>fr. is_final_ref ex_data = Some fr \<and> \<not> fr ! 4" using fr n4 by blast
  note t0 = registration_frame[OF run e0 disjI2[OF m0]]
  note t4 = registration_frame[OF run e4 disjI1[OF h4]]
  show ?thesis
    by (rule conjI[OF run' conjI[OF e0 conjI[OF m0 conjI[OF t0[THEN conjunct1]
          conjI[OF t0[THEN conjunct2] conjI[OF e4 conjI[OF fr conjI[OF n4 t4]]]]]]]])
qed

text \<open>
  Claim C7. In every run of \<^verbatim>\<open>main\<close> on a configuration with \<open>FLAG_APODIZER >= 2\<close> or with a
  \<open>PARAM_PSF_TYPE\<close> other than \<open>GS-PSF\<close>, \<^verbatim>\<open>main\<close> raises, and no call to the fitting or
  the registration code has been made; for the apodizer flag the error is the
  RuntimeError of line 34 and no call at all has been made.
\<close>

theorem unsupported_configuration_fatal:
  assumes run: "main ex c [] = (r, tr)"
    and bad: "2 \<le> conf_get (FLAG_APODIZER c) 0 \<or> PARAM_PSF_TYPE c \<noteq> Some ''GS-PSF''"
  shows "(\<exists>e. r = Inl e) \<and> (\<forall>e\<in>set tr. \<not> is_fit e) \<and>
         (2 \<le> conf_get (FLAG_APODIZER c) 0 \<longrightarrow>
            r = Inl (RuntimeError ''FLAG_APODIZER >= 2 not implemented'') \<and> tr = [])"
proof (cases "2 \<le> conf_get (FLAG_APODIZER c) 0")
  case True
  then have "main_load ex c [] = (Inl (RuntimeError ''FLAG_APODIZER >= 2 not implemented''), [])"
    by (simp add: main_load_def raise_apply)
  then have "main ex c [] = (Inl (RuntimeError ''FLAG_APODIZER >= 2 not implemented''), [])"
    by (simp add: main_def bnd_apply)
  with run show ?thesis by auto
next
  case False
  with bad have psf: "PARAM_PSF_TYPE c \<noteq> Some ''GS-PSF''" by simp
  obtain r1 t1 where load: "main_load ex c [] = (r1, t1)" by (cases "main_load ex c []")
  note nf = not_fit_main_load[OF load]
  have "(\<exists>e. r = Inl e) \<and> tr = t1"
  proof (cases r1)
    case (Inl e)
    with load run show ?thesis by (auto simp: main_def bnd_apply)
  next
    case (Inr x)
    obtain d w s where x: "x = (d, w, s)" by (cases x)
    from main_psf_unsupported[OF psf] obtain e where "main_psf ex c d w t1 = (Inl e, t1)"
      by blast
    with load run Inr x show ?thesis by (auto simp: main_def bnd_apply)
  qed
  with nf False show ?thesis by simp
qed

text \<open>
  The configuration of the worked example with the apodizer flag 2, and with the PSF
  type \<open>G-PSF\<close>.
\<close>

theorem unsupported_configuration_fatal_witness:
  "main (ex_ext ex_ds ex_flat) (ex_conf (Some 2) None (Some ''GS-PSF'') None None) [] =
     (Inl (RuntimeError ''FLAG_APODIZER >= 2 not implemented''), []) \<and>
   2 \<le> conf_get (FLAG_APODIZER (ex_conf (Some 2) None (Some ''GS-PSF'') None None)) 0 \<and>
   main (ex_ext ex_ds ex_flat) (ex_conf None None (Some ''G-PSF'') None None) [] =
     (Inl (RuntimeError ''G-PSF (from FITS files) not implemented''),
      [Ev_read_select_header_keys ''cube1.fits'', Ev_read_dataset [''cube1.fits''],
       Ev_DDTData ex_store]) \<and>
   PARAM_PSF_TYPE (ex_conf None None (Some ''G-PSF'') None None) \<noteq> Some ''GS-PSF'' \<and>
   \<not> (\<exists>e \<in> set [Ev_read_select_header_keys ''cube1.fits'', Ev_read_dataset [''cube1.fits''],
       Ev_DDTData ex_store :: (unit, unit) event]. is_fit e)"
proof -
  note run1 = ex_main_run_apodizer[of ex_flat None "Some ''GS-PSF''" None None]
  note run2 = ex_main_run_psf[of ex_flat None None None]
  have bad1: "2 \<le> conf_get (FLAG_APODIZER (ex_conf (Some 2) None (Some ''GS-PSF'') None None)) 0"
    by (simp add: conf_get_def ex_conf_def)
  have bad2: "PARAM_PSF_TYPE (ex_conf None None (Some ''G-PSF'') None None) \<noteq> Some ''GS-PSF''"
    by (simp add: ex_conf_def)
  note t1 = unsupported_configuration_fatal[OF run1 disjI1[OF bad1]]
  note t2 = unsupported_configuration_fatal[OF run2 disjI2[OF bad2]]
  have nofit: "\<not> (\<exists>e \<in> set [Ev_read_select_header_keys ''cube1.fits'',
       Ev_read_dataset [''cube1.fits''], Ev_DDTData ex_store :: (unit, unit) event]. is_fit e)"
    using t1 t2[THEN conjunct2, THEN conjunct1] by blast
  show ?thesis
    by (rule conjI[OF run1 conjI[OF bad1 conjI[OF run2 conjI[OF bad2 nofit]]]])
qed



text \<open>
  Claim C9, as amended. In every run of \<^verbatim>\<open>main\<close> that builds the datacube store, the store is
  built, after the neutralization of the NaNs, from the arrays of lines 57 to 59: for
  every epoch with more than 200 wavelengths, the single plane 200 with the data times
  \<open>10^15\<close> and the weight times \<open>10^-30\<close>; for an epoch with 200 wavelengths or fewer, no
  plane at all. The store has one wavelength in the first case and none in the second.
\<close>

theorem wavelength_slice:
  assumes run: "main ex c [] = (r, tr)"
    and ev: "Ev_DDTData d \<in> set tr"
  shows "\<exists>cubes data0 weight0 wave0.
           IN_CUBE c = Some cubes \<and> read_dataset ex cubes = Inr (data0, weight0, wave0) \<and>
           zero_weight_nan (slice_scale (10 ^ 15) data0) (slice_scale (1 / 10 ^ 30) weight0)
             = Inr (data d, weight d) \<and>
           wave d = take 1 (drop 200 wave0) \<and>
           nw d = (if 200 < length (data0 ! 0) then 1 else 0) \<and>
           (\<forall>t<length data0.
              slice_scale (10 ^ 15) data0 ! t =
                (if 200 < length (data0 ! t)
                 then [map (map (\<lambda>v. fmul v (Fin (10 ^ 15)))) (data0 ! t ! 200)] else [])) \<and>
           (\<forall>t<length weight0.
              slice_scale (1 / 10 ^ 30) weight0 ! t =
                (if 200 < length (weight0 ! t)
                 then [map (map (\<lambda>v. fmul v (Fin (1 / 10 ^ 30)))) (weight0 ! t ! 200)] else []))"
proof -
  from main_events[OF run ev] obtain s t0 t1 where
    load: "main_load ex c t0 = (Inr (d, wave_ref_of c, s), t1)"
    by (auto simp: main_event_def)
  from load obtain cubes data0 weight0 wave0 where
    cubes: "IN_CUBE c = Some cubes" "read_dataset ex cubes = Inr (data0, weight0, wave0)" and
    z: "zero_weight_nan (slice_scale (10 ^ 15) data0) (slice_scale (1 / 10 ^ 30) weight0)
       = Inr (data d, weight d)" and
    nw: "nw d = length (take 1 (drop 200 (data0 ! 0)))" and
    wv: "wave d = take 1 (drop 200 wave0)"
    by (rule main_load_Inr)
  have sl: "slice_scale k a ! t =
      (if 200 < length (a ! t) then [map (map (\<lambda>v. fmul v (Fin k))) (a ! t ! 200)] else [])"
    if "t < length a" for k a t
    using that by (simp add: slice_scale_nth take1_drop_long[unfolded One_nat_def])
  have nw': "nw d = (if 200 < length (data0 ! 0) then 1 else 0)"
    unfolding nw by (simp add: take1_drop_long[unfolded One_nat_def])
  show ?thesis
    using cubes z wv nw' sl
    by (intro exI[of _ cubes] exI[of _ data0] exI[of _ weight0] exI[of _ wave0]) simp
qed

text \<open>
  The run on the dataset of 201 wavelengths.
\<close>

theorem wavelength_slice_witness:
  "main (ex_ext ex_ds ex_flat) (ex_conf None None (Some ''GS-PSF'') None None) [] =
     (Inr (ex_main_final ex_store [Fin 0] [Fin 0]), ex_main_trace ex_store 5000 [Fin 0] [Fin 0]) \<and>
   Ev_DDTData ex_store \<in> set (ex_main_trace ex_store 5000 [Fin 0] [Fin 0]) \<and>
   200 < length (fst ex_ds ! 0) \<and> nw ex_store = 1 \<and>
   (\<exists>cubes data0 weight0 wave0.
      IN_CUBE (ex_conf None None (Some ''GS-PSF'') None None) = Some cubes \<and>
      read_dataset (ex_ext ex_ds ex_flat) cubes = Inr (data0, weight0, wave0) \<and>
      zero_weight_nan (slice_scale (10 ^ 15) data0) (slice_scale (1 / 10 ^ 30) weight0)
        = Inr (data ex_store, weight ex_store) \<and>
      wave ex_store = take 1 (drop 200 wave0) \<and>
      nw ex_store = (if 200 < length (data0 ! 0) then 1 else 0) \<and>
      (\<forall>t<length data0.
         slice_scale (10 ^ 15) data0 ! t =
           (if 200 < length (data0 ! t)
            then [map (map (\<lambda>v. fmul v (Fin (10 ^ 15)))) (data0 ! t ! 200)] else [])) \<and>
      (\<forall>t<length weight0.
         slice_scale (1 / 10 ^ 30) weight0 ! t =
           (if 200 < length (weight0 ! t)
            then [map (map (\<lambda>v. fmul v (Fin (1 / 10 ^ 30)))) (weight0 ! t ! 200)] else [])))"
proof -
  have run: "main (ex_ext ex_ds ex_flat) (ex_conf None None (Some ''GS-PSF'') None None) [] =
     (Inr (ex_main_final ex_store [Fin 0] [Fin 0]), ex_main_trace ex_store 5000 [Fin 0] [Fin 0])"
    using ex_main_run[of ex_flat None None None] by (simp add: data_ctr_init_def conf_get_def)
  have ev: "Ev_DDTData ex_store \<in> set (ex_main_trace ex_store 5000 [Fin 0] [Fin 0])"
    by (simp add: ex_main_trace_def)
  have long: "200 < length (fst ex_ds ! 0)" by (simp add: ex_ds_def)
  have one: "nw ex_store = 1" by (simp add: ex_store_def)
  show ?thesis
    by (rule conjI[OF run conjI[OF ev conjI[OF long conjI[OF one wavelength_slice[OF run ev]]]]])
qed

text \<open>
  Claim C9 as stated fails: on the dataset with a single wavelength, \<^verbatim>\<open>main\<close> builds a store
  with no wavelength plane, fits it, and returns.
\<close>

theorem short_dataset_no_plane:
  "main (ex_ext ex_ds_short ex_flat) (ex_conf None None (Some ''GS-PSF'') None None) [] =
     (Inr (ex_main_final ex_store_short [Fin 0] [Fin 0]),
      ex_main_trace ex_store_short 5000 [Fin 0] [Fin 0]) \<and>
   read_dataset (ex_ext ex_ds_short ex_flat) [''cube1.fits''] = Inr ex_ds_short \<and>
   length (fst ex_ds_short ! 0) = 1 \<and>
   Ev_DDTData ex_store_short \<in> set (ex_main_trace ex_store_short 5000 [Fin 0] [Fin 0]) \<and>
   Ev_fit_model_all_epoch \<lparr>data_xctr = [Fin 0], data_yctr = [Fin 0], internals = ()\<rparr> ex_store_short
     \<in> set (ex_main_trace ex_store_short 5000 [Fin 0] [Fin 0]) \<and>
   nw ex_store_short = 0 \<and> data ex_store_short = [[]] \<and> weight ex_store_short = [[]] \<and>
   wave ex_store_short = []"
  using ex_main_run_short[of ex_flat None None None]
  by (simp add: ex_ext_def ex_ds_short_def ex_main_trace_def ex_store_short_def data_ctr_init_def
      conf_get_def)

text \<open>
  Claim C10. In every run of \<^verbatim>\<open>main\<close>, the initial offsets handed to the constructor of the
  model are zero for every epoch of the dataset when \<open>PARAM_TARGET_XP\<close> (respectively
  \<open>PARAM_TARGET_YP\<close>) is absent, and the values of the key when it is present.
\<close>

theorem initial_offsets:
  assumes run: "main ex c [] = (r, tr)"
    and ev: "Ev_DDTModel shp xinit yinit \<in> set tr"
  shows "\<exists>cubes data0 weight0 wave0.
           IN_CUBE c = Some cubes \<and> read_dataset ex cubes = Inr (data0, weight0, wave0) \<and>
           fst shp = length data0 \<and>
           (PARAM_TARGET_XP c = None \<longrightarrow> xinit = replicate (length data0) (Fin 0)) \<and>
           (\<forall>v. PARAM_TARGET_XP c = Some v \<longrightarrow> xinit = map Fin v) \<and>
           (PARAM_TARGET_YP c = None \<longrightarrow> yinit = replicate (length data0) (Fin 0)) \<and>
           (\<forall>v. PARAM_TARGET_YP c = Some v \<longrightarrow> yinit = map Fin v)"
proof -
  from main_events[OF run ev] obtain d s t0 t1 where
    load: "main_load ex c t0 = (Inr (d, wave_ref_of c, s), t1)" and
    shp: "shp = (nt d, nw d)" and
    xi: "xinit = data_ctr_init (PARAM_TARGET_XP c) (nt d)" and
    yi: "yinit = data_ctr_init (PARAM_TARGET_YP c) (nt d)"
    by (auto simp: main_event_def)
  from load obtain cubes data0 weight0 wave0 where
    cubes: "IN_CUBE c = Some cubes" "read_dataset ex cubes = Inr (data0, weight0, wave0)" and
    nt: "nt d = length data0"
    by (rule main_load_Inr)
  show ?thesis
    using cubes shp xi yi unfolding nt
    by (intro exI[of _ cubes] exI[of _ data0] exI[of _ weight0] exI[of _ wave0])
       (simp add: data_ctr_init_def)
qed

text \<open>
  The run of the worked example: no \<open>PARAM_TARGET_XP\<close>, and \<open>PARAM_TARGET_YP = [0.5]\<close>.
\<close>

theorem initial_offsets_witness:
  "main (ex_ext ex_ds ex_flat) (ex_conf None None (Some ''GS-PSF'') None (Some [1 / 2])) [] =
     (Inr (ex_main_final ex_store [Fin 0] [Fin (1 / 2)]),
      ex_main_trace ex_store 5000 [Fin 0] [Fin (1 / 2)]) \<and>
   Ev_DDTModel (1, 1) [Fin 0] [Fin (1 / 2)] \<in> set (ex_main_trace ex_store 5000 [Fin 0] [Fin (1 / 2)]) \<and>
   PARAM_TARGET_XP (ex_conf None None (Some ''GS-PSF'') None (Some [1 / 2])) = None \<and>
   PARAM_TARGET_YP (ex_conf None None (Some ''GS-PSF'') None (Some [1 / 2])) = Some [1 / 2] \<and>
   (\<exists>cubes data0 weight0 wave0.
      IN_CUBE (ex_conf None None (Some ''GS-PSF'') None (Some [1 / 2])) = Some cubes \<and>
      read_dataset (ex_ext ex_ds ex_flat) cubes = Inr (data0, weight0, wave0) \<and>
      fst (1 :: nat, 1 :: nat) = length data0 \<and>
      (PARAM_TARGET_XP (ex_conf None None (Some ''GS-PSF'') None (Some [1 / 2])) = None \<longrightarrow>
         [Fin 0] = replicate (length data0) (Fin 0)) \<and>
      (\<forall>v. PARAM_TARGET_XP (ex_conf None None (Some ''GS-PSF'') None (Some [1 / 2])) = Some v \<longrightarrow>
         [Fin 0] = map Fin v) \<and>
      (PARAM_TARGET_YP (ex_conf None None (Some ''GS-PSF'') None (Some [1 / 2])) = None \<longrightarrow>
         [Fin (1 / 2)] = replicate (length data0) (Fin 0)) \<and>
      (\<forall>v. PARAM_TARGET_YP (ex_conf None None (Some ''GS-PSF'') None (Some [1 / 2])) = Some v \<longrightarrow>
         [Fin (1 / 2)] = map Fin v))"
proof -
  have run: "main (ex_ext ex_ds ex_flat) (ex_conf None None (Some ''GS-PSF'') None (Some [1 / 2])) [] =
     (Inr (ex_main_final ex_store [Fin 0] [Fin (1 / 2)]),
      ex_main_trace ex_store 5000 [Fin 0] [Fin (1 / 2)])"
    using ex_main_run[of ex_flat None None "Some [1 / 2]"]
    by (simp add: data_ctr_init_def conf_get_def)
  have ev: "Ev_DDTModel (1, 1) [Fin 0] [Fin (1 / 2)]
      \<in> set (ex_main_trace ex_store 5000 [Fin 0] [Fin (1 / 2)])"
    by (simp add: ex_main_trace_def ex_store_def)
  have keys: "PARAM_TARGET_XP (ex_conf None None (Some ''GS-PSF'') None (Some [1 / 2])) = None"
    "PARAM_TARGET_YP (ex_conf None None (Some ''GS-PSF'') None (Some [1 / 2])) = Some [1 / 2]"
    by (simp_all add: ex_conf_def)
  show ?thesis
    by (rule conjI[OF run conjI[OF ev conjI[OF keys(1) conjI[OF keys(2) initial_offsets[OF run ev]]]]])
qed

end
